theory Spec2Isabelle
  imports Complex_Main "HOL-Library.Sublist" "HOL-Library.AList"
begin

text \<open>
  Promotion allocation and lifecycle of the coco-promotions service: the experience
  protector, the refund service and the scheduler's sweeps over the promotion tables, the
  targeting engine, the pricing strategy, the optimizer and the creation path of the
  controller, each function translated from its TypeScript source, and the properties of
  the specification settled against them. What a query answers is an input of the
  function that issues it; a write is a change of the tables.
\<close>

section \<open>JavaScript numbers\<close>

text \<open>
  The services compute with JavaScript numbers. Finite values are reals, and the
  operations of this section are exact; the rounding of the doubles is the matter of the
  next section, and is applied in the pricing strategy, whose properties depend on it.
  The three non-finite values are kept, because the code reaches them: \<open>0 / 0\<close> and
  arithmetic on \<open>undefined\<close> give \<open>NaN\<close>, \<open>Math.max()\<close> of nothing gives
  \<open>-Infinity\<close>. Signed zeros are not distinguished.
\<close>

datatype jsnum = Fin real | PInf | NInf | NaN

fun js_sgn :: "jsnum \<Rightarrow> int" where
  "js_sgn (Fin a) = (if a < 0 then -1 else if a = 0 then 0 else 1)"
| "js_sgn PInf = 1"
| "js_sgn NInf = -1"
| "js_sgn NaN = 0"

definition js_inf :: "int \<Rightarrow> jsnum" where
  "js_inf s = (if s = 0 then NaN else if 0 < s then PInf else NInf)"

fun js_add :: "jsnum \<Rightarrow> jsnum \<Rightarrow> jsnum" where
  "js_add NaN y = NaN"
| "js_add x NaN = NaN"
| "js_add (Fin a) (Fin b) = Fin (a + b)"
| "js_add (Fin a) y = y"
| "js_add x (Fin b) = x"
| "js_add PInf PInf = PInf"
| "js_add NInf NInf = NInf"
| "js_add PInf NInf = NaN"
| "js_add NInf PInf = NaN"

fun js_neg :: "jsnum \<Rightarrow> jsnum" where
  "js_neg (Fin a) = Fin (- a)"
| "js_neg PInf = NInf"
| "js_neg NInf = PInf"
| "js_neg NaN = NaN"

definition js_sub :: "jsnum \<Rightarrow> jsnum \<Rightarrow> jsnum" where
  "js_sub x y = js_add x (js_neg y)"

fun js_mul :: "jsnum \<Rightarrow> jsnum \<Rightarrow> jsnum" where
  "js_mul NaN y = NaN"
| "js_mul x NaN = NaN"
| "js_mul (Fin a) (Fin b) = Fin (a * b)"
| "js_mul x y = js_inf (js_sgn x * js_sgn y)"

fun js_div :: "jsnum \<Rightarrow> jsnum \<Rightarrow> jsnum" where
  "js_div NaN y = NaN"
| "js_div x NaN = NaN"
| "js_div (Fin a) (Fin b) = (if b = 0 then js_inf (js_sgn (Fin a)) else Fin (a / b))"
| "js_div (Fin a) y = Fin 0"
| "js_div x (Fin b) = js_inf (js_sgn x * (if b < 0 then -1 else 1))"
| "js_div x y = NaN"

text \<open>Comparisons with \<open>NaN\<close> are false.\<close>

fun js_lt :: "jsnum \<Rightarrow> jsnum \<Rightarrow> bool" where
  "js_lt NaN y = False"
| "js_lt x NaN = False"
| "js_lt (Fin a) (Fin b) = (a < b)"
| "js_lt NInf y = (y \<noteq> NInf)"
| "js_lt x PInf = (x \<noteq> PInf)"
| "js_lt x y = False"

definition js_gt :: "jsnum \<Rightarrow> jsnum \<Rightarrow> bool" where
  "js_gt x y = js_lt y x"

fun js_floor :: "jsnum \<Rightarrow> jsnum" where
  "js_floor (Fin a) = Fin (of_int \<lfloor>a\<rfloor>)"
| "js_floor x = x"

fun js_ceil :: "jsnum \<Rightarrow> jsnum" where
  "js_ceil (Fin a) = Fin (of_int \<lceil>a\<rceil>)"
| "js_ceil x = x"

text \<open>\<open>Math.min(x, y)\<close> and \<open>Math.max(x, y)\<close>: \<open>NaN\<close> if an argument is.\<close>

definition js_min :: "jsnum \<Rightarrow> jsnum \<Rightarrow> jsnum" where
  "js_min x y = (if x = NaN \<or> y = NaN then NaN else if js_lt y x then y else x)"

definition js_max :: "jsnum \<Rightarrow> jsnum \<Rightarrow> jsnum" where
  "js_max x y = (if x = NaN \<or> y = NaN then NaN else if js_lt x y then y else x)"

text \<open>\<open>Math.max(...xs)\<close>; of no argument it is \<open>-Infinity\<close>.\<close>

definition js_max_list :: "jsnum list \<Rightarrow> jsnum" where
  "js_max_list xs = foldl js_max NInf xs"

text \<open>A number read from a property that may be absent: \<open>undefined\<close> in arithmetic is \<open>NaN\<close>.\<close>

fun js_num :: "real option \<Rightarrow> jsnum" where
  "js_num None = NaN"
| "js_num (Some a) = Fin a"

text \<open>\<open>x || d\<close> on a number: \<open>0\<close> and \<open>NaN\<close> are falsy.\<close>

definition js_or :: "jsnum \<Rightarrow> jsnum \<Rightarrow> jsnum" where
  "js_or x d = (if x = NaN \<or> x = Fin 0 then d else x)"

section \<open>Types of the promotion domain (types/promotion.types.ts)\<close>

datatype WealthLevel =
  foam | plankton | crab | fish | turtle | dolphin | shark | whale | giant_whale

text \<open>The string a wealth level is at run time: the type is a union of string literals.\<close>

fun wealth_str :: "WealthLevel \<Rightarrow> string" where
  "wealth_str foam = ''foam''"
| "wealth_str plankton = ''plankton''"
| "wealth_str crab = ''crab''"
| "wealth_str fish = ''fish''"
| "wealth_str turtle = ''turtle''"
| "wealth_str dolphin = ''dolphin''"
| "wealth_str shark = ''shark''"
| "wealth_str whale = ''whale''"
| "wealth_str giant_whale = ''giant_whale''"

datatype ActionType =
  view | like | unlike | share | comment | unlock | promo_view | promo_click
  | promo_comment | follow

record Location =
  country :: string
  region :: "string option"

text \<open>
  \<open>TargetUser\<close>. The objects that reach the services at run time are plain objects, and a
  property the interface declares can be absent from them (see
  \<open>findTargetsWithinFramework\<close>), so \<open>userId\<close>, \<open>wealthLevel\<close> and
  \<open>location\<close> are optional here: \<open>None\<close> is \<open>undefined\<close>.
\<close>

record TargetUser =
  userId :: "string option"
  wealthLevel :: "WealthLevel option"
  relevanceScore :: real
  engagementProbability :: real
  influenceMultiplier :: real
  location :: "Location option"

section \<open>ExperienceProtectorService (services/experience-protector.service.ts)\<close>

text \<open>
  What the queries of the service read from the store. \<open>posts\<close> is the row of
  \<open>checkContentQuality\<close>'s query for a post id, with the interaction counts and the text
  length the query computes; \<open>author_avg_engagement\<close> the average of
  \<open>checkAuthorReputation\<close> (\<open>None\<close> is SQL \<open>NULL\<close>: no post in 30 days);
  \<open>user_deliveries_24h\<close>, \<open>author_deliveries_24h\<close> and \<open>type_counts_24h\<close> the
  counts of deliveries in the trailing 24 hours.
\<close>

record post_row =
  p_author_id :: string
  p_likes :: nat
  p_replies :: nat
  p_shares :: nat
  p_text_length :: nat
  p_created_at :: int

record protector_db =
  posts :: "string \<Rightarrow> post_row option"
  author_avg_engagement :: "string \<Rightarrow> real option"
  user_deliveries_24h :: "string option \<Rightarrow> nat"
  author_deliveries_24h :: "string option \<Rightarrow> nat"
  type_counts_24h :: "nat list"

text \<open>A promotion handed to the protector: the properties the checks read.\<close>

record promo_candidate =
  postId :: "string option"
  authorId :: "string option"

definition checkAuthorReputation :: "protector_db \<Rightarrow> string \<Rightarrow> real" where
  "checkAuthorReputation db a =
     (let avgEngagement = (case author_avg_engagement db a of None \<Rightarrow> 0 | Some v \<Rightarrow> v)
      in min 1 (avgEngagement / 50))"

text \<open>\<open>checkContentQuality\<close>: the score; \<open>now\<close> is \<open>Date.now()\<close> in milliseconds.\<close>

definition checkContentQuality :: "protector_db \<Rightarrow> int \<Rightarrow> string option \<Rightarrow> real" where
  "checkContentQuality db now pid =
     (case (case pid of None \<Rightarrow> None | Some i \<Rightarrow> posts db i) of
        None \<Rightarrow> 0
      | Some p \<Rightarrow>
          (let engagementScore = real (p_likes p + p_replies p * 2 + p_shares p * 3);
               s1 = 30 + min 40 (engagementScore / 2);
               textLength = p_text_length p;
               s2 = (if textLength < 50 then s1 - 20
                     else if textLength > 200 then s1 + 15 else s1);
               s3 = s2 + checkAuthorReputation db (p_author_id p) * 15;
               hoursAgo = real_of_int (now - p_created_at p) / (1000 * 60 * 60);
               s4 = (if hoursAgo > 168 then s3 - 10 else s3)
           in max 0 (min 100 s4)))"

record frequency_check =
  fc_passed :: bool
  recommendedLimit :: nat
  violatingUsers :: "string option list"

definition checkFrequencyLimits ::
  "protector_db \<Rightarrow> promo_candidate \<Rightarrow> ('a TargetUser_scheme) list \<Rightarrow> frequency_check" where
  "checkFrequencyLimits db promotion targetUsers =
     (let dailyLimit = 3;
          violating = filter (\<lambda>i. user_deliveries_24h db i \<ge> dailyLimit)
                        (map userId (take 100 targetUsers));
          violationRate = js_div (Fin (real (length violating)))
                            (Fin (real (min (length targetUsers) 100)))
      in \<lparr> fc_passed = js_lt violationRate (Fin 0.2),
           recommendedLimit = dailyLimit,
           violatingUsers = violating \<rparr>)"

definition checkContentTypeDiversity :: "protector_db \<Rightarrow> bool" where
  "checkContentTypeDiversity db =
     (let totalPromotions = sum_list (type_counts_24h db);
          maxTypeCount = js_max_list (map (\<lambda>c. Fin (real c)) (type_counts_24h db));
          dominanceRatio = js_div maxTypeCount (Fin (real (max 1 totalPromotions)))
      in js_lt dominanceRatio (Fin 0.6))"

definition checkPromotionDiversity :: "protector_db \<Rightarrow> promo_candidate \<Rightarrow> string list" where
  "checkPromotionDiversity db promotion =
     (if author_deliveries_24h db (authorId promotion) \<ge> 2
      then [''same_author_too_frequent''] else []) @
     (if \<not> checkContentTypeDiversity db then [''content_type_not_diverse''] else [])"

definition calculateSafetyScore :: "real \<Rightarrow> bool \<Rightarrow> bool \<Rightarrow> real" where
  "calculateSafetyScore score fpassed dpassed =
     min 100 (score * 0.5 + (if fpassed then 100 else 0) * 0.3
                          + (if dpassed then 100 else 0) * 0.2)"

record constraints =
  maxDailyFrequency :: nat
  minOrganicGap :: nat
  qualityThreshold :: real

record safety_check =
  approved :: bool
  safetyScore :: real
  rejectionReason :: "string option"
  deliveryConstraints :: "constraints option"

definition checkPromotionSafety ::
  "protector_db \<Rightarrow> int \<Rightarrow> promo_candidate \<Rightarrow> ('a TargetUser_scheme) list \<Rightarrow> safety_check" where
  "checkPromotionSafety db now promotion targetUsers =
     (let score = checkContentQuality db now (postId promotion) in
      if score < 40 then
        \<lparr> approved = False, safetyScore = score,
          rejectionReason = Some ''content_quality_too_low'', deliveryConstraints = None \<rparr>
      else
        let frequencyCheck = checkFrequencyLimits db promotion targetUsers in
        if \<not> fc_passed frequencyCheck then
          \<lparr> approved = False, safetyScore = 0,
            rejectionReason = Some ''frequency_limit_exceeded'', deliveryConstraints = None \<rparr>
        else
          let issues = checkPromotionDiversity db promotion in
          if issues \<noteq> [] then
            \<lparr> approved = False, safetyScore = 0,
              rejectionReason = Some ''diversity_requirements_not_met'',
              deliveryConstraints = None \<rparr>
          else
            \<lparr> approved = True,
              safetyScore = calculateSafetyScore score (fc_passed frequencyCheck) True,
              rejectionReason = None,
              deliveryConstraints = Some
                \<lparr> maxDailyFrequency = recommendedLimit frequencyCheck, minOrganicGap = 3,
                  qualityThreshold = score \<rparr> \<rparr>)"

record QualityProtection =
  maxFrequencyPerUser :: nat
  minContentQuality :: nat
  organicContentRatio :: real
  maxSameAuthor :: nat
  contentTypeBalance :: bool

definition generateProtectionReport :: QualityProtection where
  "generateProtectionReport =
     \<lparr> maxFrequencyPerUser = 3, minContentQuality = 40, organicContentRatio = 0.85,
       maxSameAuthor = 2, contentTypeBalance = True \<rparr>"

record protection_result =
  approvedPromotions :: "(promo_candidate \<times> real \<times> constraints option) list"
  rejectedPromotions :: "(promo_candidate \<times> string option) list"
  protectionReport :: QualityProtection

text \<open>
  \<open>protectUserExperience\<close>: the loop over the promotions, each pushed to the approved or to
  the rejected list.
\<close>

definition protectUserExperience ::
  "protector_db \<Rightarrow> int \<Rightarrow> promo_candidate list \<Rightarrow> ('a TargetUser_scheme) list
     \<Rightarrow> protection_result" where
  "protectUserExperience db now promotions targetUsers =
     (let checks = map (\<lambda>p. (p, checkPromotionSafety db now p targetUsers)) promotions in
      \<lparr> approvedPromotions =
          map (\<lambda>(p, c). (p, safetyScore c, deliveryConstraints c))
            (filter (\<lambda>(p, c). approved c) checks),
        rejectedPromotions =
          map (\<lambda>(p, c). (p, rejectionReason c)) (filter (\<lambda>(p, c). \<not> approved c) checks),
        protectionReport = generateProtectionReport \<rparr>)"

section \<open>Double precision\<close>

text \<open>
  The arithmetic of IEEE 754 binary64: \<open>rd x\<close> is the double nearest to the real
  \<open>x\<close>, ties to the even significand, with the subnormal numbers below
  \<open>2 powi (- 1022)\<close>; \<open>fl x\<close> is the result of an operation whose exact value is
  \<open>x\<close>, infinite when \<open>rd x\<close> reaches \<open>2 ^ 1024\<close>. A decimal literal of the source
  denotes \<open>rd\<close> of its value. The exponent is found by halving or doubling, at most
  1100 times: beyond that a number overflows or is subnormal.
\<close>

definition round_even :: "real \<Rightarrow> int" where
  "round_even y =
     (let f = \<lfloor>y\<rfloor>; r = y - of_int f
      in if r < 1 / 2 then f else if 1 / 2 < r then f + 1 else if even f then f else f + 1)"

fun expo_up :: "nat \<Rightarrow> real \<Rightarrow> int" where
  "expo_up 0 x = 0"
| "expo_up (Suc n) x = (if x < 2 then 0 else 1 + expo_up n (x / 2))"

fun expo_down :: "nat \<Rightarrow> real \<Rightarrow> int" where
  "expo_down 0 x = 0"
| "expo_down (Suc n) x = (if 1 \<le> x then 0 else expo_down n (x * 2) - 1)"

definition exponent64 :: "real \<Rightarrow> int" where
  "exponent64 x = max (- 1022) (if 1 \<le> x then expo_up 1100 x else expo_down 1100 x)"

definition rd :: "real \<Rightarrow> real" where
  "rd x =
     (if x = 0 then 0
      else (let q = 2 powi (exponent64 \<bar>x\<bar> - 52) in of_int (round_even (x / q)) * q))"

definition fl :: "real \<Rightarrow> jsnum" where
  "fl x =
     (let y = rd x
      in if 2 ^ 1024 \<le> y then PInf else if y \<le> - (2 ^ 1024) then NInf else Fin y)"

text \<open>The product of two numbers.\<close>

definition js_mul64 :: "jsnum \<Rightarrow> jsnum \<Rightarrow> jsnum" where
  "js_mul64 x y = (case (x, y) of (Fin a, Fin b) \<Rightarrow> fl (a * b) | _ \<Rightarrow> js_mul x y)"

text \<open>\<open>xs.reduce((sum, x) => sum + x, 0)\<close> on finite numbers.\<close>

definition sum64 :: "real list \<Rightarrow> real" where
  "sum64 xs = foldl (\<lambda>sum x. rd (sum + x)) 0 xs"

section \<open>The tables (migrations/001_create_promotion_tables.sql)\<close>

text \<open>
  Each table is the list of its rows, in insertion order; times are milliseconds since the
  epoch; the \<open>DECIMAL\<close> columns are exact. Status columns are \<open>VARCHAR\<close>, so strings.
  \<open>promotions.id\<close> is the primary key: a lookup by id takes the first row.
\<close>

record promotion_row =
  pr_id :: string
  pr_post_id :: string
  pr_author_id :: string
  budget_total :: real
  duration_days :: int
  target_wealth_levels :: "WealthLevel list"
  preferred_regions :: "string list"
  exclude_followers :: bool
  pr_status :: string
  pr_created_at :: int
  expires_at :: int
  completed_at :: "int option"

record queue_row =
  q_promotion_id :: string
  q_user_id :: "string option"
  scheduled_delivery :: int
  q_status :: string
  q_created_at :: int
  cancelled_at :: "int option"
  cancellation_reason :: "string option"

record expense_row =
  e_promotion_id :: string
  e_user_id :: string
  action_type :: string
  cost :: real
  e_created_at :: int

record refund_task_row =
  rt_promotion_id :: string
  original_budget :: real
  refund_date :: int
  refund_amount :: "real option"
  rt_status :: string
  rt_created_at :: int
  processed_at :: "int option"

text \<open>
  A row of \<open>points_ledger\<close> as \<open>executeRefund\<close> writes it; the \<open>description\<close> column,
  a fixed text followed by the promotion id, is left out.
\<close>

record ledger_row =
  l_user_id :: string
  amount :: real
  l_type :: string
  reference_type :: string
  reference_id :: string
  l_created_at :: int

record store =
  promotions :: "promotion_row list"
  promotion_queue :: "queue_row list"
  promotion_expenses :: "expense_row list"
  refund_tasks :: "refund_task_row list"
  points_ledger :: "ledger_row list"

definition find_promotion :: "store \<Rightarrow> string \<Rightarrow> promotion_row option" where
  "find_promotion s pid = find (\<lambda>p. pr_id p = pid) (promotions s)"

text \<open>\<open>COALESCE(SUM(pe.cost), 0)\<close> over the expenses of one promotion.\<close>

definition total_spent :: "store \<Rightarrow> string \<Rightarrow> real" where
  "total_spent s pid =
     sum_list (map cost (filter (\<lambda>e. e_promotion_id e = pid) (promotion_expenses s)))"

section \<open>RefundService (second part of services/experience-protector.service.ts)\<close>

text \<open>
  A sweep is modelled at one instant \<open>now\<close>, the value of SQL \<open>NOW()\<close> and of
  \<open>new Date()\<close>, and the store as never failing.
\<close>

record refund_row =
  r_promotion_id :: string
  r_original_budget :: real
  r_author_id :: string
  r_post_id :: string
  r_total_spent :: real

definition executeRefund :: "int \<Rightarrow> string \<Rightarrow> real \<Rightarrow> string \<Rightarrow> store \<Rightarrow> store" where
  "executeRefund now author amt pid s =
     s\<lparr> points_ledger := points_ledger s @
          [\<lparr> l_user_id = author, amount = amt, l_type = ''earn'',
             reference_type = ''promotion_refund'', reference_id = pid,
             l_created_at = now \<rparr>] \<rparr>"

definition complete_promotion :: "int \<Rightarrow> string \<Rightarrow> promotion_row \<Rightarrow> promotion_row" where
  "complete_promotion now pid p =
     (if pr_id p = pid then p\<lparr> pr_status := ''completed'', completed_at := Some now \<rparr> else p)"

definition complete_task :: "int \<Rightarrow> string \<Rightarrow> real \<Rightarrow> refund_task_row \<Rightarrow> refund_task_row" where
  "complete_task now pid amt t =
     (if rt_promotion_id t = pid
      then t\<lparr> rt_status := ''completed'', processed_at := Some now, refund_amount := Some amt \<rparr>
      else t)"

text \<open>\<open>processRefund\<close>: the credit, then the two \<open>UPDATE\<close>s, neither conditional on a status.\<close>

definition processRefund :: "int \<Rightarrow> refund_row \<Rightarrow> store \<Rightarrow> store" where
  "processRefund now promotion s =
     (let originalBudget = r_original_budget promotion;
          totalSpent = r_total_spent promotion;
          refundAmount = max 0 (originalBudget - totalSpent);
          s1 = (if refundAmount > 0
                then executeRefund now (r_author_id promotion) refundAmount
                       (r_promotion_id promotion) s
                else s);
          s2 = s1\<lparr> promotions :=
                 map (complete_promotion now (r_promotion_id promotion)) (promotions s1) \<rparr>
      in s2\<lparr> refund_tasks :=
             map (complete_task now (r_promotion_id promotion) refundAmount)
               (refund_tasks s2) \<rparr>)"

text \<open>
  The query of \<open>processScheduledRefunds\<close>: the scheduled tasks whose date has come, joined
  to their promotion (an inner join: a task without promotion is not selected) and to the
  expenses of the promotion, grouped by promotion id and original budget (author and post
  follow from the id). The sum of a group runs over the joined rows, so it counts the
  expenses once for every task of the group.
\<close>

definition due_tasks :: "int \<Rightarrow> store \<Rightarrow> refund_task_row list" where
  "due_tasks now s =
     filter (\<lambda>t. rt_status t = ''scheduled'' \<and> refund_date t \<le> now
                 \<and> find_promotion s (rt_promotion_id t) \<noteq> None) (refund_tasks s)"

definition task_key :: "refund_task_row \<Rightarrow> string \<times> real" where
  "task_key t = (rt_promotion_id t, original_budget t)"

definition refund_row_of :: "int \<Rightarrow> store \<Rightarrow> string \<times> real \<Rightarrow> refund_row" where
  "refund_row_of now s k =
     \<lparr> r_promotion_id = fst k, r_original_budget = snd k,
       r_author_id = (case find_promotion s (fst k) of Some p \<Rightarrow> pr_author_id p | None \<Rightarrow> []),
       r_post_id = (case find_promotion s (fst k) of Some p \<Rightarrow> pr_post_id p | None \<Rightarrow> []),
       r_total_spent =
         real (length (filter (\<lambda>t. task_key t = k) (due_tasks now s))) * total_spent s (fst k) \<rparr>"

definition expiredPromotions :: "int \<Rightarrow> store \<Rightarrow> refund_row list" where
  "expiredPromotions now s =
     map (refund_row_of now s) (remdups (map task_key (due_tasks now s)))"

definition processScheduledRefunds :: "int \<Rightarrow> store \<Rightarrow> store" where
  "processScheduledRefunds now s = fold (processRefund now) (expiredPromotions now s) s"

record budget_info =
  originalBudget :: real
  totalSpent :: real
  remainingBudget :: real
  isExhausted :: bool

text \<open>\<open>checkRemainingBudget\<close>; \<open>None\<close> is the thrown \<open>Promotion not found\<close>.\<close>

definition checkRemainingBudget :: "store \<Rightarrow> string \<Rightarrow> budget_info option" where
  "checkRemainingBudget s pid =
     (case find_promotion s pid of
        None \<Rightarrow> None
      | Some p \<Rightarrow>
          (let remaining = max 0 (budget_total p - total_spent s pid) in
           Some \<lparr> originalBudget = budget_total p, totalSpent = total_spent s pid,
                  remainingBudget = remaining, isExhausted = (remaining \<le> 0.01) \<rparr>))"

definition cancel_queue :: "int \<Rightarrow> string \<Rightarrow> string \<Rightarrow> queue_row \<Rightarrow> queue_row" where
  "cancel_queue now pid reason q =
     (if q_promotion_id q = pid \<and> q_status q = ''scheduled''
      then q\<lparr> q_status := ''cancelled'', cancelled_at := Some now,
              cancellation_reason := Some reason \<rparr>
      else q)"

definition stop_promotion :: "int \<Rightarrow> string \<Rightarrow> promotion_row \<Rightarrow> promotion_row" where
  "stop_promotion now pid p =
     (if pr_id p = pid then p\<lparr> pr_status := ''stopped_early'', completed_at := Some now \<rparr>
      else p)"

text \<open>
  \<open>stopPromotionEarly\<close>: the store it leaves, and whether it threw (the writes made
  before the throw stay).
\<close>

definition stopPromotionEarly :: "int \<Rightarrow> string \<Rightarrow> string \<Rightarrow> store \<Rightarrow> store \<times> bool" where
  "stopPromotionEarly now pid reason s =
     (let s1 = s\<lparr> promotion_queue := map (cancel_queue now pid reason) (promotion_queue s) \<rparr>;
          s2 = s1\<lparr> promotions := map (stop_promotion now pid) (promotions s1) \<rparr>
      in case checkRemainingBudget s2 pid of
           None \<Rightarrow> (s2, True)
         | Some budgetInfo \<Rightarrow>
             (if remainingBudget budgetInfo > 0
              then (case find_promotion s2 pid of
                      Some p \<Rightarrow>
                        (executeRefund now (pr_author_id p) (remainingBudget budgetInfo) pid s2,
                         False)
                    | None \<Rightarrow> (s2, False))
              else (s2, False)))"

section \<open>SchedulerService (services/scheduler.service.ts)\<close>

text \<open>The promotions \<open>checkBudgetExhaustion\<close> selects: active, not expired, 98% spent.\<close>

definition exhaustedPromotions :: "int \<Rightarrow> store \<Rightarrow> string list" where
  "exhaustedPromotions now s =
     map pr_id (filter (\<lambda>p. pr_status p = ''active'' \<and> expires_at p > now
                            \<and> total_spent s (pr_id p) \<ge> budget_total p * 0.98)
                  (promotions s))"

text \<open>The loop over them; a throw leaves the loop (the \<open>catch\<close> is around it).\<close>

fun stop_each :: "int \<Rightarrow> string list \<Rightarrow> store \<Rightarrow> store" where
  "stop_each now [] s = s"
| "stop_each now (pid # pids) s =
     (case stopPromotionEarly now pid ''budget_exhausted'' s of
        (s', threw) \<Rightarrow> if threw then s' else stop_each now pids s')"

definition checkBudgetExhaustion :: "int \<Rightarrow> store \<Rightarrow> store" where
  "checkBudgetExhaustion now s = stop_each now (exhaustedPromotions now s) s"

text \<open>The two sweeps on the promotions, in any order and at any times.\<close>

datatype sweep = RefundSweep int | ExhaustionSweep int

fun run_sweep :: "sweep \<Rightarrow> store \<Rightarrow> store" where
  "run_sweep (RefundSweep now) s = processScheduledRefunds now s"
| "run_sweep (ExhaustionSweep now) s = checkBudgetExhaustion now s"

definition run_sweeps :: "sweep list \<Rightarrow> store \<Rightarrow> store" where
  "run_sweeps ws s = fold run_sweep ws s"

definition status_of :: "store \<Rightarrow> string \<Rightarrow> string option" where
  "status_of s pid = map_option pr_status (find_promotion s pid)"

text \<open>The refund credits of a promotion in the ledger, and its refund tasks.\<close>

definition credits :: "store \<Rightarrow> string \<Rightarrow> ledger_row list" where
  "credits s pid = filter (\<lambda>l. reference_id l = pid) (points_ledger s)"

definition tasks_of :: "store \<Rightarrow> string \<Rightarrow> refund_task_row list" where
  "tasks_of s pid = filter (\<lambda>t. rt_promotion_id t = pid) (refund_tasks s)"

section \<open>TargetingEngineService (services/targeting-engine.service.ts)\<close>

text \<open>
  A row of the candidate query, with the column names of the \<open>SELECT\<close>, and the content
  row the services are handed (a row of \<open>posts\<close>; a \<open>NULL\<close> count reads as 0 and a
  \<open>NULL\<close> text as the empty string, as the code's \<open>|| 0\<close> and \<open>|| ''\<close> make them).
  \<open>c_target_wealth_levels\<close> is the array the column holds, \<open>None\<close> when it is
  \<open>NULL\<close>; \<open>c_images\<close> is the array whose JSON text the column holds (the optimizer
  parses it; the targeting engine takes the length of the text, which is positive for
  every array). A text is the list of its UTF-16 code units, which is what \<open>length\<close>
  counts and \<open>includes\<close> searches. A \<open>NULL\<close> region of a user is \<open>None\<close>. The
  content's \<open>location\<close> is an object whose \<open>country\<close> and \<open>region\<close> may each be
  absent (\<open>undefined\<close>), \<open>null\<close> or a string; \<open>strict_eq\<close> is \<open>===\<close> between such a
  property and a column of a row, which is \<open>null\<close> or a string.
\<close>

type_synonym utf16 = "nat list"

definition utf16 :: "string \<Rightarrow> utf16" where
  "utf16 s = map of_char s"

datatype js_string = JsUndefined | JsNull | JsStr string

record content_location =
  loc_country :: js_string
  loc_region :: js_string

fun strict_eq :: "js_string \<Rightarrow> string option \<Rightarrow> bool" where
  "strict_eq (JsStr a) (Some b) = (a = b)"
| "strict_eq JsNull None = True"
| "strict_eq _ _ = False"

record candidate_row =
  user_id :: string
  country_code :: "string option"
  c_region :: "string option"
  wealth_level :: WealthLevel
  followers_count :: nat
  recent_activity :: nat
  avg_engagement :: real

record content_row =
  c_id :: string
  c_author_id :: string
  c_likes :: nat
  c_replies :: nat
  c_shares :: nat
  c_text :: utf16
  c_images :: "string list option"
  c_target_wealth_levels :: "string list option"
  c_location :: "content_location option"

text \<open>
  A scored candidate is the row spread into a new object together with the three scores:
  it has the row's properties \<open>user_id\<close> and \<open>wealth_level\<close>, and no property
  \<open>userId\<close>, \<open>wealthLevel\<close> or \<open>location\<close>.
\<close>

record scored_candidate = TargetUser +
  row :: candidate_row

fun getUserSophistication :: "WealthLevel \<Rightarrow> real" where
  "getUserSophistication foam = 10"
| "getUserSophistication plankton = 20"
| "getUserSophistication crab = 30"
| "getUserSophistication fish = 40"
| "getUserSophistication turtle = 50"
| "getUserSophistication dolphin = 70"
| "getUserSophistication shark = 85"
| "getUserSophistication whale = 95"
| "getUserSophistication giant_whale = 100"

fun valueMap :: "WealthLevel \<Rightarrow> real" where
  "valueMap foam = 0.5"
| "valueMap plankton = 1"
| "valueMap crab = 1.5"
| "valueMap fish = 2"
| "valueMap turtle = 3"
| "valueMap dolphin = 5"
| "valueMap shark = 8"
| "valueMap whale = 12"
| "valueMap giant_whale = 20"

text \<open>\<open>getWealthLevelValue\<close>: the table read at a key that may be \<open>undefined\<close>.\<close>

definition getWealthLevelValue :: "WealthLevel option \<Rightarrow> real option" where
  "getWealthLevelValue w = map_option valueMap w"

definition assessContentComplexity :: "content_row \<Rightarrow> real" where
  "assessContentComplexity content =
     (let textLength = real (length (c_text content));
          interactionDepth = real (c_replies content)
            / real (max 1 (if c_likes content = 0 then 1 else c_likes content))
      in min 100 (textLength / 10 + interactionDepth * 20))"

definition calculateWealthMatch :: "content_row \<Rightarrow> candidate_row \<Rightarrow> real" where
  "calculateWealthMatch content user =
     (case c_target_wealth_levels content of
        Some targetLevels \<Rightarrow>
          (if wealth_str (wealth_level user) \<in> set targetLevels then 1.0 else 0.3)
      | None \<Rightarrow>
          min 1 (assessContentComplexity content / getUserSophistication (wealth_level user)))"

definition calculateGeoRelevance :: "content_row \<Rightarrow> candidate_row \<Rightarrow> real" where
  "calculateGeoRelevance content user =
     (case (c_location content, country_code user) of
        (Some loc, Some cc) \<Rightarrow>
          (if cc = [] then 0.5
           else if strict_eq (loc_country loc) (Some cc)
           then (if strict_eq (loc_region loc) (c_region user) then 1.0 else 0.8)
           else 0.2)
      | _ \<Rightarrow> 0.5)"

definition calculateActivityMatch :: "content_row \<Rightarrow> candidate_row \<Rightarrow> real" where
  "calculateActivityMatch content user =
     (let userActivity = recent_activity user;
          contentEngagement = c_likes content + c_replies content
      in if userActivity > 10 \<and> contentEngagement > 20 then 1.0
         else if userActivity > 5 \<and> contentEngagement > 10 then 0.8
         else if userActivity > 2 \<and> contentEngagement > 5 then 0.6
         else 0.4)"

definition calculateRelevanceScore :: "content_row \<Rightarrow> candidate_row \<Rightarrow> real" where
  "calculateRelevanceScore content user =
     min 100 (max 0 (50 + calculateWealthMatch content user * 25
                        + calculateGeoRelevance content user * 15
                        + calculateActivityMatch content user * 10))"

text \<open>\<open>assessContentQuality\<close> of the targeting engine.\<close>

definition assessContentQuality_targeting :: "content_row \<Rightarrow> real" where
  "assessContentQuality_targeting content =
     (let engagement = real (c_likes content + c_replies content * 2 + c_shares content * 3);
          textLength = length (c_text content);
          hasImages = (c_images content \<noteq> None)
      in min 100 (30 + min 40 (engagement * 2) + (if textLength > 100 then 20 else 10)
                    + (if hasImages then 10 else 0)))"

definition predictEngagementProbability :: "content_row \<Rightarrow> candidate_row \<Rightarrow> real" where
  "predictEngagementProbability content user =
     (let activityFactor = min 1 (real (recent_activity user) / 10);
          engagementFactor = min 1 (avg_engagement user / 50);
          qualityFactor = assessContentQuality_targeting content / 100
      in min 0.9 (0.3 * (1 + activityFactor + engagementFactor + qualityFactor)))"

definition calculateInfluenceMultiplier :: "candidate_row \<Rightarrow> real" where
  "calculateInfluenceMultiplier user =
     (let influenceScore = real (followers_count user) * min 1 (avg_engagement user / 100)
      in 1 + min 4 (influenceScore / 1000))"

text \<open>
  \<open>calculateUserValue\<close> reads \<open>user.wealthLevel\<close>; the product with an
  \<open>undefined\<close> table entry is \<open>NaN\<close>.
\<close>

definition calculateUserValue :: "'a TargetUser_scheme \<Rightarrow> jsnum" where
  "calculateUserValue user =
     js_mul (Fin (relevanceScore user * engagementProbability user * influenceMultiplier user))
       (js_num (getWealthLevelValue (wealthLevel user)))"

text \<open>
  \<open>Array.prototype.sort\<close> with a comparator: a stable sort, in which \<open>x\<close> goes behind
  \<open>y\<close> only when the comparator is positive on \<open>(x, y)\<close> (a \<open>NaN\<close> counts as 0).
\<close>

fun js_insert :: "('a \<Rightarrow> 'a \<Rightarrow> jsnum) \<Rightarrow> 'a \<Rightarrow> 'a list \<Rightarrow> 'a list" where
  "js_insert cmp x [] = [x]"
| "js_insert cmp x (y # ys) =
     (if js_gt (cmp x y) (Fin 0) then y # js_insert cmp x ys else x # y # ys)"

definition js_sort :: "('a \<Rightarrow> 'a \<Rightarrow> jsnum) \<Rightarrow> 'a list \<Rightarrow> 'a list" where
  "js_sort cmp xs = foldr (js_insert cmp) xs []"

definition score_candidate :: "content_row \<Rightarrow> candidate_row \<Rightarrow> scored_candidate" where
  "score_candidate content user =
     \<lparr> userId = None, wealthLevel = None,
       relevanceScore = calculateRelevanceScore content user,
       engagementProbability = predictEngagementProbability content user,
       influenceMultiplier = calculateInfluenceMultiplier user,
       location = None, row = user \<rparr>"

text \<open>
  \<open>findTargetsWithinFramework\<close>, on the rows \<open>queryCandidatesInFramework\<close> returned
  for the targeting (at most 2000, in the order of the query). \<open>None\<close> is the
  \<open>TypeError\<close> of scoring a candidate against a \<open>null\<close> content.
\<close>

definition findTargetsWithinFramework ::
  "content_row option \<Rightarrow> candidate_row list \<Rightarrow> scored_candidate list option" where
  "findTargetsWithinFramework content candidates =
     (case content of
        None \<Rightarrow> (if candidates = [] then Some [] else None)
      | Some c \<Rightarrow>
          Some (take 1000
            (js_sort (\<lambda>a b. js_sub (calculateUserValue b) (calculateUserValue a))
               (map (score_candidate c) candidates))))"

section \<open>PricingStrategyService (services/pricing-strategy.service.ts)\<close>

text \<open>
  An object with string keys is a map from strings (its own properties; the properties an
  object inherits from \<open>Object.prototype\<close> are not modelled); the two tables indexed
  by a closed type are functions. The numbers of this service are doubles: a literal that
  is no double itself is written \<open>rd\<close> of its value, and a product, quotient or sum is
  rounded.
\<close>

record PricingStrategy =
  basePrices :: "ActionType \<Rightarrow> real"
  wealthMultipliers :: "WealthLevel \<Rightarrow> real"
  demandMultipliers :: "string \<Rightarrow> real option"
  qualityDiscounts :: "string \<Rightarrow> real option"

fun basePrices_table :: "ActionType \<Rightarrow> real" where
  "basePrices_table view = 1"
| "basePrices_table like = 2"
| "basePrices_table unlike = 1"
| "basePrices_table share = 6"
| "basePrices_table comment = 8"
| "basePrices_table unlock = 15"
| "basePrices_table promo_view = 1"
| "basePrices_table promo_click = 5"
| "basePrices_table promo_comment = 10"
| "basePrices_table follow = 12"

fun wealthMultipliers_table :: "WealthLevel \<Rightarrow> real" where
  "wealthMultipliers_table foam = 0.5"
| "wealthMultipliers_table plankton = 1.0"
| "wealthMultipliers_table crab = 1.5"
| "wealthMultipliers_table fish = 2.0"
| "wealthMultipliers_table turtle = 3.0"
| "wealthMultipliers_table dolphin = 5.0"
| "wealthMultipliers_table shark = 8.0"
| "wealthMultipliers_table whale = 12.0"
| "wealthMultipliers_table giant_whale = 20.0"

definition regionMultipliers :: "string \<Rightarrow> real option" where
  "regionMultipliers =
     [''CN'' \<mapsto> rd 1.2, ''US'' \<mapsto> 1.5, ''EU'' \<mapsto> rd 1.3, ''default'' \<mapsto> 1.0]"

text \<open>
  \<open>calculateDemandMultipliers\<close>; \<open>weekend\<close> is what \<open>isWeekend()\<close> reads from the
  clock. The region key is written last, over a time key of the same name.
\<close>

definition calculateDemandMultipliers :: "int \<Rightarrow> string \<Rightarrow> bool \<Rightarrow> string \<Rightarrow> real option" where
  "calculateDemandMultipliers timeOfDay rgn weekend =
     [''business_hours'' \<mapsto> (if timeOfDay \<ge> 9 \<and> timeOfDay \<le> 18 then 1.5 else 1.0),
      ''evening'' \<mapsto> (if timeOfDay \<ge> 19 \<and> timeOfDay \<le> 23 then rd 1.3 else 1.0),
      ''weekend'' \<mapsto> (if weekend then rd 0.8 else 1.0),
      rgn \<mapsto> (case regionMultipliers rgn of Some v \<Rightarrow> v | None \<Rightarrow> 1.0)]"

definition calculateQualityDiscounts :: "real \<Rightarrow> string \<Rightarrow> real option" where
  "calculateQualityDiscounts contentQuality =
     (if contentQuality \<ge> 90 then [''premium'' \<mapsto> rd 0.7]
      else if contentQuality \<ge> 75 then [''high'' \<mapsto> rd 0.8]
      else if contentQuality \<ge> 60 then [''medium'' \<mapsto> rd 0.9]
      else [''low'' \<mapsto> rd 1.2])"

definition calculateDynamicPricing ::
  "WealthLevel list \<Rightarrow> real \<Rightarrow> int \<Rightarrow> string \<Rightarrow> bool \<Rightarrow> PricingStrategy" where
  "calculateDynamicPricing targetWealthLevels contentQuality timeOfDay rgn weekend =
     \<lparr> basePrices = basePrices_table,
       wealthMultipliers = wealthMultipliers_table,
       demandMultipliers = calculateDemandMultipliers timeOfDay rgn weekend,
       qualityDiscounts = calculateQualityDiscounts contentQuality \<rparr>"

text \<open>The key \<open>user.location?.country || 'default'\<close>.\<close>

definition demand_key :: "'a TargetUser_scheme \<Rightarrow> string" where
  "demand_key user =
     (case location user of
        None \<Rightarrow> ''default''
      | Some loc \<Rightarrow> (if country loc = [] then ''default'' else country loc))"

text \<open>
  \<open>calculateActionPrice\<close>. The class body declares two members of this name: a public
  one with four parameters (lines 59 to 80), which multiplies in the quality and relevance
  discounts and returns \<open>Math.ceil(finalPrice)\<close>, and further down a private one with
  three parameters (lines 318 to 324). Both go to the same property of the prototype, and
  the later declaration replaces the earlier: every call of \<open>calculateActionPrice\<close>,
  with three arguments or with four, runs the body of lines 318 to 324, which this
  definition embeds. A fourth argument is not read.
\<close>

definition calculateActionPrice ::
  "ActionType \<Rightarrow> 'a TargetUser_scheme \<Rightarrow> PricingStrategy \<Rightarrow> real \<Rightarrow> jsnum" where
  "calculateActionPrice action user pricing contentQuality =
     (let basePrice = Fin (basePrices pricing action);
          wealthMultiplier =
            js_num (map_option (wealthMultipliers pricing) (wealthLevel user));
          demandMultiplier =
            js_or (js_num (demandMultipliers pricing (demand_key user))) (Fin 1.0)
      in js_mul64 (js_mul64 basePrice wealthMultiplier) demandMultiplier)"

fun conversionRate :: "WealthLevel \<Rightarrow> real" where
  "conversionRate giant_whale = 0.25"
| "conversionRate whale = 0.20"
| "conversionRate shark = 0.15"
| "conversionRate dolphin = 0.12"
| "conversionRate turtle = 0.08"
| "conversionRate fish = 0.06"
| "conversionRate crab = 0.04"
| "conversionRate plankton = 0.03"
| "conversionRate foam = 0.02"

fun averageValue :: "WealthLevel \<Rightarrow> real" where
  "averageValue giant_whale = 100"
| "averageValue whale = 80"
| "averageValue shark = 60"
| "averageValue dolphin = 40"
| "averageValue turtle = 20"
| "averageValue fish = 12"
| "averageValue crab = 8"
| "averageValue plankton = 5"
| "averageValue foam = 3"

fun calculateAverageCost :: "WealthLevel \<Rightarrow> real" where
  "calculateAverageCost giant_whale = 50"
| "calculateAverageCost whale = 30"
| "calculateAverageCost shark = 20"
| "calculateAverageCost dolphin = 12"
| "calculateAverageCost turtle = 8"
| "calculateAverageCost fish = 5"
| "calculateAverageCost crab = 3"
| "calculateAverageCost plankton = 2"
| "calculateAverageCost foam = 1"

text \<open>
  The ROI of a level: \<open>expectedReturn / cost\<close>, with
  \<open>expectedReturn = stats.conversionRate * stats.averageValue\<close>.
\<close>

definition level_roi :: "WealthLevel \<Rightarrow> real" where
  "level_roi level =
     (let cost = calculateAverageCost level;
          expectedReturn = rd (rd (conversionRate level) * averageValue level)
      in rd (expectedReturn / cost))"

text \<open>
  An object keyed by wealth level, as the list of its entries in insertion order; an
  assignment to a key that is there replaces its value (\<open>AList.update\<close>).
\<close>

type_synonym allocation = "(WealthLevel \<times> real) list"

definition calculateExpectedOutcome :: "allocation \<Rightarrow> ActionType \<Rightarrow> int" where
  "calculateExpectedOutcome allocations =
     (let expectedViews =
            foldl (\<lambda>sum (level, budget). rd (sum + rd (budget / calculateAverageCost level)))
              0 allocations
      in (\<lambda>a. case a of
            view \<Rightarrow> \<lfloor>expectedViews\<rfloor>
          | like \<Rightarrow> \<lfloor>rd (expectedViews * rd 0.02)\<rfloor>
          | unlike \<Rightarrow> \<lfloor>rd (expectedViews * rd 0.005)\<rfloor>
          | share \<Rightarrow> \<lfloor>rd (expectedViews * rd 0.008)\<rfloor>
          | comment \<Rightarrow> \<lfloor>rd (expectedViews * rd 0.005)\<rfloor>
          | unlock \<Rightarrow> \<lfloor>rd (expectedViews * rd 0.001)\<rfloor>
          | promo_view \<Rightarrow> \<lfloor>expectedViews\<rfloor>
          | promo_click \<Rightarrow> \<lfloor>rd (expectedViews * rd 0.03)\<rfloor>
          | promo_comment \<Rightarrow> \<lfloor>rd (expectedViews * rd 0.002)\<rfloor>
          | follow \<Rightarrow> \<lfloor>rd (expectedViews * rd 0.003)\<rfloor>))"

text \<open>\<open>calculateEfficiencyScore\<close>; with no item the average is \<open>0 / 0\<close>.\<close>

definition calculateEfficiencyScore :: "real list \<Rightarrow> jsnum" where
  "calculateEfficiencyScore rois =
     (let avgROI = (if rois = [] then NaN else Fin (rd (sum64 rois / real (length rois))))
      in js_min (Fin 100) (js_mul64 avgROI (Fin 20)))"

record budget_optimization =
  recommendedAllocation :: allocation
  expectedOutcome :: "ActionType \<Rightarrow> int"
  efficiencyScore :: jsnum

text \<open>
  \<open>calculateBudgetOptimization\<close>, for a total budget that is a finite double and far
  from overflow (the request schemas admit 1 to 10000). The share of an item is
  \<open>(item.roi / totalROI) * totalBudget\<close>, two rounded operations; the shares are
  computed per list item and then written into an object keyed by level, and nothing is
  done to them after that. \<open>expectedActions\<close> is not read. With no level there is no
  item, and no division by the zero \<open>totalROI\<close>.
\<close>

definition calculateBudgetOptimization ::
  "real \<Rightarrow> WealthLevel list \<Rightarrow> 'e \<Rightarrow> budget_optimization" where
  "calculateBudgetOptimization totalBudget targetWealthLevels expectedActions =
     (let levelROIs = map (\<lambda>level. (level, level_roi level)) targetWealthLevels;
          totalROI = sum64 (map snd levelROIs);
          allocated = map (\<lambda>(level, roi). (level, rd (rd (roi / totalROI) * totalBudget)))
                        levelROIs;
          recommended = fold (\<lambda>(level, a). AList.update level a) allocated []
      in \<lparr> recommendedAllocation = recommended,
           expectedOutcome = calculateExpectedOutcome recommended,
           efficiencyScore = calculateEfficiencyScore (map snd levelROIs) \<rparr>)"

section \<open>PromotionOptimizerService (services/promotion-optimizer.service.ts)\<close>

text \<open>A parsed request; the optional \<open>goals\<close>, which no modelled code reads, are left out.\<close>

record PromotionRequest =
  rq_authorId :: string
  rq_postId :: string
  rq_total :: real
  rq_dailyLimit :: "real option"
  rq_duration :: real
  rq_wealthLevels :: "WealthLevel list"
  rq_preferredRegions :: "string list option"
  rq_excludeFollowers :: bool

text \<open>
  What one run of the optimizer reads from outside its arguments and the store: the clock,
  at the five places that read it, and one draw of \<open>Math.random()\<close>, given as the text
  \<open>toString(36)\<close> makes of it.
\<close>

record optimizer_env =
  pricing_hours :: int
  pricing_weekend :: bool
  protect_now :: int
  schedule_start :: int
  schedule_now :: int
  id_now :: nat
  id_random :: string

definition digit36 :: "nat \<Rightarrow> char" where
  "digit36 d = ''0123456789abcdefghijklmnopqrstuvwxyz'' ! d"

fun toString36 :: "nat \<Rightarrow> string" where
  "toString36 n = (if n < 36 then [digit36 n] else toString36 (n div 36) @ [digit36 (n mod 36)])"

declare toString36.simps [simp del]

definition generatePromotionId :: "optimizer_env \<Rightarrow> string" where
  "generatePromotionId env =
     ''promo_'' @ toString36 (id_now env) @ ''_'' @ drop 2 (id_random env)"

text \<open>The property name a wealth level makes when it indexes an object.\<close>

definition prop_key :: "WealthLevel option \<Rightarrow> string" where
  "prop_key w = (case w of None \<Rightarrow> ''undefined'' | Some l \<Rightarrow> wealth_str l)"

text \<open>\<open>assessContentQuality\<close> of the optimizer.\<close>

definition assessContentQuality :: "content_row \<Rightarrow> real" where
  "assessContentQuality content =
     (let engagement = real (c_likes content + c_replies content * 2 + c_shares content * 3);
          textLength = length (c_text content);
          hasImages = (case c_images content of None \<Rightarrow> False | Some imgs \<Rightarrow> length imgs > 0)
      in min 100 (20 + min 50 engagement + (if textLength > 200 then 20 else 10)
                    + (if hasImages then 10 else 0)))"

text \<open>
  \<open>toLowerCase\<close>, by code unit: the ASCII capitals, and the two other characters whose
  lower case has an ASCII letter (U+0130 gives \<open>i\<close> and U+0307, the Kelvin sign U+212A
  gives \<open>k\<close>). The lower case of any other character has no code unit of a keyword, and
  is left as it is. The five Chinese keywords are two code units each.
\<close>

definition lower_unit :: "nat \<Rightarrow> utf16" where
  "lower_unit n =
     (if 65 \<le> n \<and> n \<le> 90 then [n + 32]
      else if n = 0x130 then [0x69, 0x307]
      else if n = 0x212A then [0x6B]
      else [n])"

definition businessKeywords :: "utf16 list" where
  "businessKeywords =
     [[0x6295, 0x8D44], [0x5408, 0x4F5C], [0x521B, 0x4E1A], [0x9879, 0x76EE], [0x5546, 0x673A],
      utf16 ''investment'', utf16 ''partnership'', utf16 ''startup'', utf16 ''business'']"

definition assessContentBusinessPotential :: "content_row \<Rightarrow> real" where
  "assessContentBusinessPotential content =
     (let text = concat (map lower_unit (c_text content));
          keywordMatches = length (filter (\<lambda>keyword. sublist keyword text) businessKeywords)
      in min 100 (real keywordMatches * 20 + 20))"

text \<open>The table of \<open>calculateAudienceBusinessValue\<close>, with the keys it has.\<close>

definition wealthValues :: "string \<Rightarrow> real option" where
  "wealthValues = [''Plankton'' \<mapsto> 1, ''Turtle'' \<mapsto> 3, ''Dolphin'' \<mapsto> 7, ''Whale'' \<mapsto> 15]"

definition calculateAudienceBusinessValue :: "('a TargetUser_scheme) list \<Rightarrow> jsnum" where
  "calculateAudienceBusinessValue targetUsers =
     (let n = Fin (real (length targetUsers));
          avgWealthValue =
            js_div (foldl (\<lambda>sum user. js_add sum (js_num (wealthValues (prop_key (wealthLevel user)))))
                      (Fin 0) targetUsers) n;
          avgInfluence =
            js_div (Fin (sum_list (map influenceMultiplier targetUsers))) n
      in js_mul avgWealthValue avgInfluence)"

definition calculateExpectedBusinessValue ::
  "content_row \<Rightarrow> ('a TargetUser_scheme) list \<Rightarrow> jsnum" where
  "calculateExpectedBusinessValue content targetUsers =
     (let contentValue = assessContentBusinessPotential content;
          audienceValue = calculateAudienceBusinessValue targetUsers
      in js_mul (js_mul (js_mul (Fin contentValue) audienceValue)
                   (Fin (real (length targetUsers)))) (Fin 0.01))"

definition calculateAverageRelevance :: "('a TargetUser_scheme) list \<Rightarrow> real" where
  "calculateAverageRelevance users =
     (if length users = 0 then 0
      else sum_list (map relevanceScore users) / real (length users))"

definition js_log2 :: "jsnum \<Rightarrow> jsnum" where
  "js_log2 x =
     (case x of
        Fin a \<Rightarrow> (if 0 < a then Fin (log 2 a) else if a = 0 then NInf else NaN)
      | PInf \<Rightarrow> PInf
      | NInf \<Rightarrow> NaN
      | NaN \<Rightarrow> NaN)"

text \<open>\<open>distribution[user.wealthLevel]++\<close>: a key that is not there is made, with \<open>NaN\<close>.\<close>

definition increment :: "string \<Rightarrow> (string \<times> jsnum) list \<Rightarrow> (string \<times> jsnum) list" where
  "increment k distribution =
     AList.update k (js_add (case map_of distribution k of None \<Rightarrow> NaN | Some v \<Rightarrow> v) (Fin 1))
       distribution"

definition calculateWealthDistribution :: "('a TargetUser_scheme) list \<Rightarrow> jsnum" where
  "calculateWealthDistribution targetUsers =
     (let distribution =
            fold (\<lambda>user. increment (prop_key (wealthLevel user))) targetUsers
              [(''Plankton'', Fin 0), (''Turtle'', Fin 0), (''Dolphin'', Fin 0), (''Whale'', Fin 0)];
          total = Fin (real (length targetUsers));
          entropy =
            foldl (\<lambda>sum count.
                     if count = Fin 0 then sum
                     else (let p = js_div count total in js_sub sum (js_mul p (js_log2 p))))
              (Fin 0) (map snd distribution)
      in js_mul (js_div entropy (Fin 2)) (Fin 100))"

definition calculateAudienceQuality :: "('a TargetUser_scheme) list \<Rightarrow> jsnum" where
  "calculateAudienceQuality targetUsers =
     (let avgRelevance = calculateAverageRelevance targetUsers;
          avgEngagement = js_div (Fin (sum_list (map engagementProbability targetUsers)))
                            (Fin (real (length targetUsers)));
          wealthDistribution = calculateWealthDistribution targetUsers
      in js_div (js_add (js_add (Fin avgRelevance) (js_mul avgEngagement (Fin 100)))
                   wealthDistribution) (Fin 3))"

definition calculateGoalAchievementProbability ::
  "content_row \<Rightarrow> ('a TargetUser_scheme) list \<Rightarrow> real \<Rightarrow> jsnum" where
  "calculateGoalAchievementProbability content targetUsers averageRelevance =
     (let contentQuality = assessContentQuality content;
          audienceQuality = calculateAudienceQuality targetUsers;
          baseProbability = 0.4;
          qualityBonus = (contentQuality / 100) * 0.3;
          audienceBonus = js_mul (js_div audienceQuality (Fin 100)) (Fin 0.2);
          relevanceBonus = (averageRelevance / 100) * 0.1
      in js_min (Fin 0.95)
           (js_add (js_add (Fin (baseProbability + qualityBonus)) audienceBonus)
              (Fin relevanceBonus)))"

definition estimateExpectedActions :: "('a TargetUser_scheme) list \<Rightarrow> (string \<times> jsnum) list" where
  "estimateExpectedActions targetUsers =
     (let totalUsers = Fin (real (length targetUsers));
          avgEngagement = js_div (Fin (sum_list (map engagementProbability targetUsers))) totalUsers;
          part = (\<lambda>f. js_floor (js_mul (js_mul totalUsers avgEngagement) (Fin f)))
      in [(''view'', totalUsers), (''click'', part 0.1), (''like'', part 0.05),
          (''comment'', part 0.02), (''share'', part 0.03), (''unlock'', part 0.01),
          (''follow'', part 0.02)])"

text \<open>
  \<open>analyzeUserActivityPatterns\<close>: the 24 hourly weights, hour \<open>h\<close> at index \<open>h\<close>. The
  test compares the wealth level with \<open>'Whale'\<close> and \<open>'Dolphin'\<close>.
\<close>

definition add_hours :: "nat \<Rightarrow> nat \<Rightarrow> real \<Rightarrow> real list \<Rightarrow> real list" where
  "add_hours lo hi d patterns =
     map (\<lambda>(hour, a). if lo \<le> hour \<and> hour \<le> hi then a + d else a)
       (zip [0..<length patterns] patterns)"

definition analyzeUserActivityPatterns :: "('a TargetUser_scheme) list \<Rightarrow> real list" where
  "analyzeUserActivityPatterns targetUsers =
     (let patterns =
            fold (\<lambda>user ps.
                    if prop_key (wealthLevel user) = ''Whale'' \<or> prop_key (wealthLevel user) = ''Dolphin''
                    then add_hours 9 18 0.3 ps
                    else add_hours 19 23 0.2 ps)
              targetUsers (replicate 24 0.1);
          maxActivity = Max (set patterns)
      in map (\<lambda>a. a / maxActivity) patterns)"

text \<open>
  \<open>distributeByActivity\<close>: the entry \<open>(h, x)\<close> is the property \<open>hour_h\<close> with value
  \<open>x\<close>.
\<close>

definition distributeByActivity :: "allocation \<Rightarrow> real list \<Rightarrow> (nat \<times> real) list" where
  "distributeByActivity budgetAllocations activityPatterns =
     (let totalBudget = sum_list (map snd budgetAllocations);
          totalActivity = sum_list activityPatterns
      in map (\<lambda>(hour, activity). (hour, (activity / totalActivity) * totalBudget))
           (zip [0..<length activityPatterns] activityPatterns))"

definition selectDayTargets :: "'u list \<Rightarrow> nat \<Rightarrow> real \<Rightarrow> 'u list" where
  "selectDayTargets allTargets dayIndex totalDays =
     (let usersPerDay = nat \<lceil>real (length allTargets) / totalDays\<rceil>;
          startIndex = dayIndex * usersPerDay;
          endIndex = min (startIndex + usersPerDay) (length allTargets)
      in take (endIndex - startIndex) (drop startIndex allTargets))"

record 'u day_plan =
  day :: nat
  dp_budget :: real
  dp_targets :: "'u list"
  hourlyDistribution :: "(nat \<times> real) list"

record 'u DeliverySchedule =
  startTime :: int
  endTime :: int
  dailySchedule :: "'u day_plan list"
  timeAllocations :: "(nat \<times> real) list"

text \<open>
  \<open>createOptimalSchedule\<close>. The loop \<open>for (day = 0; day < duration; day++)\<close> runs for
  the days below the duration, which need not be whole; a \<open>Date\<close> made of a number of
  milliseconds drops its fraction.
\<close>

definition js_trunc :: "real \<Rightarrow> int" where
  "js_trunc x = (if 0 \<le> x then \<lfloor>x\<rfloor> else \<lceil>x\<rceil>)"

definition createOptimalSchedule ::
  "optimizer_env \<Rightarrow> ('a TargetUser_scheme) list \<Rightarrow> real \<Rightarrow> allocation
     \<Rightarrow> ('a TargetUser_scheme) DeliverySchedule" where
  "createOptimalSchedule env targetUsers duration budgetAllocations =
     (let activityPatterns = analyzeUserActivityPatterns targetUsers;
          hourlyAllocations = distributeByActivity budgetAllocations activityPatterns;
          daily = map (\<lambda>d. \<lparr> day = d,
                              dp_budget = sum_list (map snd budgetAllocations) / duration,
                              dp_targets = selectDayTargets targetUsers d duration,
                              hourlyDistribution = hourlyAllocations \<rparr>)
                    [0..<nat \<lceil>duration\<rceil>]
      in \<lparr> startTime = schedule_start env,
           endTime = js_trunc (real_of_int (schedule_now env) + duration * 24 * 60 * 60 * 1000),
           dailySchedule = daily,
           timeAllocations = hourlyAllocations \<rparr>)"

record ExpectedOutcome =
  estimatedViews :: jsnum
  estimatedClicks :: jsnum
  estimatedEngagements :: jsnum
  estimatedFollows :: jsnum
  expectedROI :: jsnum
  goalAchievementProbability :: jsnum

definition predictPromotionOutcome ::
  "content_row \<Rightarrow> ('a TargetUser_scheme) list \<Rightarrow> budget_optimization \<Rightarrow> PricingStrategy
     \<Rightarrow> ExpectedOutcome" where
  "predictPromotionOutcome content targetUsers budgetOptimization pricingStrategy =
     (let totalBudget = sum_list (map snd (recommendedAllocation budgetOptimization));
          averageRelevance = calculateAverageRelevance targetUsers;
          averageEngagementProb =
            js_div (Fin (sum_list (map engagementProbability targetUsers)))
              (Fin (real (length targetUsers)));
          views = Fin (of_int \<lfloor>totalBudget / 0.002\<rfloor>);
          expectedBusinessValue = calculateExpectedBusinessValue content targetUsers
      in \<lparr> estimatedViews = views,
           estimatedClicks = js_floor (js_mul (js_mul views averageEngagementProb) (Fin 0.1)),
           estimatedEngagements = js_floor (js_mul (js_mul views averageEngagementProb) (Fin 0.05)),
           estimatedFollows = js_floor (js_mul (js_mul views averageEngagementProb) (Fin 0.02)),
           expectedROI = js_div expectedBusinessValue (Fin totalBudget),
           goalAchievementProbability =
             calculateGoalAchievementProbability content targetUsers averageRelevance \<rparr>)"

record BudgetAllocation =
  total :: real
  wealthLevelAllocations :: allocation
  timeSlotAllocations :: "(nat \<times> real) list"
  actionPricing :: "ActionType \<Rightarrow> real"

record 'u TargetingPlan =
  primaryTargets :: "'u list"
  secondaryTargets :: "'u list"
  totalReach :: nat
  averageRelevance :: real

record PromotionPlan =
  promotionId :: string
  plan_postId :: string
  plan_authorId :: string
  budget :: BudgetAllocation
  targeting :: "scored_candidate TargetingPlan"
  schedule :: "scored_candidate DeliverySchedule"
  plan_expectedOutcome :: ExpectedOutcome
  qualityProtection :: QualityProtection

text \<open>
  \<open>optimizePromotionWithinFramework\<close>, on the store's answers: \<open>content\<close> is the row of
  \<open>getContentInfo\<close> (\<open>None\<close>: no such post), \<open>candidates\<close> the rows of the candidate
  query, \<open>db\<close> what the protector reads. \<open>Inl\<close> is the thrown error.
\<close>

definition optimizePromotionWithinFramework ::
  "optimizer_env \<Rightarrow> protector_db \<Rightarrow> content_row option \<Rightarrow> candidate_row list
     \<Rightarrow> PromotionRequest \<Rightarrow> string + PromotionPlan" where
  "optimizePromotionWithinFramework env db content candidates request =
     (case content of
        None \<Rightarrow> Inl ''Post not found''
      | Some c \<Rightarrow>
         (case findTargetsWithinFramework (Some c) candidates of
            None \<Rightarrow> Inl ''TypeError''
          | Some targetUsers \<Rightarrow>
             (let pricingStrategy =
                    calculateDynamicPricing (rq_wealthLevels request) (assessContentQuality c)
                      (pricing_hours env) ''CN'' (pricing_weekend env);
                  budgetOptimization =
                    calculateBudgetOptimization (rq_total request) (rq_wealthLevels request)
                      (estimateExpectedActions targetUsers);
                  experienceProtection =
                    protectUserExperience db (protect_now env)
                      [\<lparr> postId = Some (rq_postId request),
                         authorId = Some (rq_authorId request) \<rparr>]
                      targetUsers;
                  deliverySchedule =
                    createOptimalSchedule env targetUsers (rq_duration request)
                      (recommendedAllocation budgetOptimization);
                  outcome =
                    predictPromotionOutcome c targetUsers budgetOptimization pricingStrategy;
                  cut = nat \<lfloor>real (length targetUsers) * 0.7\<rfloor>
              in Inr \<lparr> promotionId = generatePromotionId env,
                       plan_postId = rq_postId request,
                       plan_authorId = rq_authorId request,
                       budget =
                         \<lparr> total = rq_total request,
                           wealthLevelAllocations = recommendedAllocation budgetOptimization,
                           timeSlotAllocations = timeAllocations deliverySchedule,
                           actionPricing = basePrices pricingStrategy \<rparr>,
                       targeting =
                         \<lparr> primaryTargets = take cut targetUsers,
                           secondaryTargets = drop cut targetUsers,
                           totalReach = length targetUsers,
                           averageRelevance = calculateAverageRelevance targetUsers \<rparr>,
                       schedule = deliverySchedule,
                       plan_expectedOutcome = outcome,
                       qualityProtection = protectionReport experienceProtection \<rparr>)))"

section \<open>PromotionController (controllers/promotion.controller.ts)\<close>

text \<open>
  The clock, at the four places of \<open>startPromotionExecution\<close> that read it. An
  \<open>INSERT\<close> fails on a primary key that is there, on a \<open>NULL\<close> for a \<open>NOT NULL\<close>
  column, on a value its column does not take and on a promotion id that is not in
  \<open>promotions\<close>; what was written before stays: the statements are not in a
  transaction.
\<close>

record controller_clock =
  t_record :: int
  t_protect :: int
  t_queue :: int
  t_refund :: int

text \<open>
  \<open>this.generatePromotionId()\<close>, the first statement of \<open>startPromotionExecution\<close>.
  The class \<open>PromotionController\<close> declares no member of this name and extends no
  class (the method of this name is a private member of \<open>PromotionOptimizerService\<close>),
  so the property is \<open>undefined\<close> and the call throws a \<open>TypeError\<close>: \<open>None\<close>.
\<close>

definition controller_generatePromotionId :: "controller_clock \<Rightarrow> string option" where
  "controller_generatePromotionId clk = None"

text \<open>
  What a column \<open>DECIMAL(10,4)\<close> stores of a number: the number rounded to four
  decimals, half away from zero, and an error (\<open>None\<close>) from \<open>10 ^ 6\<close> on. A column
  \<open>INTEGER\<close> takes a whole number of 32 bits, and fails on any other.
\<close>

definition decimal_10_4 :: "real \<Rightarrow> real option" where
  "decimal_10_4 x =
     (let r = sgn x * real_of_int \<lfloor>\<bar>x\<bar> * 10000 + 1 / 2\<rfloor> / 10000
      in if \<bar>r\<bar> < 1000000 then Some r else None)"

definition integer_column :: "real \<Rightarrow> int option" where
  "integer_column x =
     (if x = real_of_int \<lfloor>x\<rfloor> \<and> - 2147483648 \<le> x \<and> x \<le> 2147483647 then Some \<lfloor>x\<rfloor>
      else None)"

text \<open>\<open>recordPromotionRequest\<close>; \<open>None\<close> is the failed \<open>INSERT\<close>.\<close>

definition recordPromotionRequest ::
  "int \<Rightarrow> string \<Rightarrow> PromotionRequest \<Rightarrow> store \<Rightarrow> store option" where
  "recordPromotionRequest now pid request s =
     (case (decimal_10_4 (rq_total request), integer_column (rq_duration request)) of
        (Some budget_total', Some duration_days') \<Rightarrow>
          (if find_promotion s pid \<noteq> None then None
           else Some (s\<lparr> promotions := promotions s @
                  [\<lparr> pr_id = pid, pr_post_id = rq_postId request,
                     pr_author_id = rq_authorId request, budget_total = budget_total',
                     duration_days = duration_days',
                     target_wealth_levels = rq_wealthLevels request,
                     preferred_regions =
                       (case rq_preferredRegions request of None \<Rightarrow> [] | Some rs \<Rightarrow> rs),
                     exclude_followers = rq_excludeFollowers request,
                     pr_status = ''active'', pr_created_at = now,
                     expires_at = now + duration_days' * 24 * 60 * 60 * 1000,
                     completed_at = None \<rparr>] \<rparr>))
      | _ \<Rightarrow> None)"

text \<open>
  The inserts of \<open>createDeliveryQueue\<close>, one per target user and in order, each with
  \<open>user.userId\<close>; the result says whether an insert threw.
\<close>

fun insert_queue :: "int \<Rightarrow> string \<Rightarrow> (string option \<times> int) list \<Rightarrow> store \<Rightarrow> store \<times> bool" where
  "insert_queue now pid [] s = (s, False)"
| "insert_queue now pid ((None, deliveryDate) # rest) s = (s, True)"
| "insert_queue now pid ((Some uid, deliveryDate) # rest) s =
     (if find_promotion s pid = None then (s, True)
      else insert_queue now pid rest
             (s\<lparr> promotion_queue := promotion_queue s @
                  [\<lparr> q_promotion_id = pid, q_user_id = Some uid,
                     scheduled_delivery = deliveryDate, q_status = ''scheduled'',
                     q_created_at = now, cancelled_at = None,
                     cancellation_reason = None \<rparr>] \<rparr>))"

definition createDeliveryQueue ::
  "int \<Rightarrow> string \<Rightarrow> 'p list \<Rightarrow> ('a TargetUser_scheme) list \<Rightarrow> store \<Rightarrow> store \<times> bool" where
  "createDeliveryQueue now pid approvedPromotions' targetUsers s =
     (let duration = 7;
          usersPerDay = nat \<lceil>real (length targetUsers) / real duration\<rceil>;
          inserts = concat (map (\<lambda>d. map (\<lambda>user. (userId user, now + int d * 24 * 60 * 60 * 1000))
                                       (take usersPerDay (drop (d * usersPerDay) targetUsers)))
                             [0..<duration])
      in insert_queue now pid inserts s)"

text \<open>
  \<open>initiateDelivery\<close>. The content is handed to the protector as the promotion: a row of
  \<open>posts\<close>, it has no property \<open>postId\<close> or \<open>authorId\<close>, and when it is \<open>null\<close>
  reading \<open>postId\<close> throws.
\<close>

definition initiateDelivery ::
  "controller_clock \<Rightarrow> protector_db \<Rightarrow> content_row option \<Rightarrow> candidate_row list \<Rightarrow> string
     \<Rightarrow> PromotionRequest \<Rightarrow> store \<Rightarrow> store \<times> bool" where
  "initiateDelivery clk db content candidates pid request s =
     (case findTargetsWithinFramework content candidates of
        None \<Rightarrow> (s, True)
      | Some targetUsers \<Rightarrow>
          (case content of
             None \<Rightarrow> (s, True)
           | Some c \<Rightarrow>
               (let protectedResult =
                      protectUserExperience db (t_protect clk)
                        [\<lparr> postId = None, authorId = None \<rparr>] targetUsers
                in createDeliveryQueue (t_queue clk) pid (approvedPromotions protectedResult)
                     targetUsers s)))"

text \<open>\<open>scheduleRefundTask\<close>; \<open>None\<close> is the failed \<open>INSERT\<close>.\<close>

definition scheduleRefundTask :: "int \<Rightarrow> string \<Rightarrow> real \<Rightarrow> int \<Rightarrow> store \<Rightarrow> store option" where
  "scheduleRefundTask now pid totalBudget maxDays s =
     (case decimal_10_4 totalBudget of
        None \<Rightarrow> None
      | Some original_budget' \<Rightarrow>
          (if find_promotion s pid = None then None
           else Some (s\<lparr> refund_tasks := refund_tasks s @
                  [\<lparr> rt_promotion_id = pid, original_budget = original_budget',
                     refund_date = now + maxDays * 24 * 60 * 60 * 1000, refund_amount = None,
                     rt_status = ''scheduled'', rt_created_at = now,
                     processed_at = None \<rparr>] \<rparr>)))"

text \<open>
  \<open>startPromotionExecution\<close>: the store it leaves and the id it returns, \<open>None\<close> when a
  statement threw.
\<close>

definition startPromotionExecution ::
  "controller_clock \<Rightarrow> protector_db \<Rightarrow> content_row option \<Rightarrow> candidate_row list
     \<Rightarrow> PromotionRequest \<Rightarrow> store \<Rightarrow> store \<times> string option" where
  "startPromotionExecution clk db content candidates request s =
     (case controller_generatePromotionId clk of
        None \<Rightarrow> (s, None)
      | Some promotionId' \<Rightarrow>
          (case recordPromotionRequest (t_record clk) promotionId' request s of
             None \<Rightarrow> (s, None)
           | Some s1 \<Rightarrow>
               (case initiateDelivery clk db content candidates promotionId' request s1 of
                  (s2, threw) \<Rightarrow>
                    if threw then (s2, None)
                    else (case scheduleRefundTask (t_refund clk) promotionId'
                                 (rq_total request) 7 s2 of
                            None \<Rightarrow> (s2, None)
                          | Some s3 \<Rightarrow> (s3, Some promotionId')))))"

text \<open>
  \<open>createPromotion\<close>, from the parsed request on: the duration is capped at 7 days and
  the execution started. The response is not modelled.
\<close>

definition createPromotion ::
  "controller_clock \<Rightarrow> protector_db \<Rightarrow> content_row option \<Rightarrow> candidate_row list
     \<Rightarrow> PromotionRequest \<Rightarrow> store \<Rightarrow> store \<times> string option" where
  "createPromotion clk db content candidates requestData s =
     startPromotionExecution clk db content candidates
       (requestData\<lparr> rq_duration := min (rq_duration requestData) 7 \<rparr>) s"

section \<open>Concrete inputs\<close>

definition demo_post :: post_row where
  "demo_post = \<lparr> p_author_id = ''author1'', p_likes = 30, p_replies = 5, p_shares = 2,
                 p_text_length = 120, p_created_at = 0 \<rparr>"

definition demo_db :: protector_db where
  "demo_db = \<lparr> posts = (\<lambda>i. if i = ''post1'' then Some demo_post else None),
               author_avg_engagement = (\<lambda>a. None),
               user_deliveries_24h = (\<lambda>u. 0),
               author_deliveries_24h = (\<lambda>a. 0),
               type_counts_24h = [] \<rparr>"

definition demo_promotion :: promo_candidate where
  "demo_promotion = \<lparr> postId = Some ''post1'', authorId = Some ''author1'' \<rparr>"

text \<open>
  Scenario A: a budget of 100 and three expenses totalling 40, refund task due on day 7.
\<close>

definition promoA :: promotion_row where
  "promoA = \<lparr> pr_id = ''promo_a'', pr_post_id = ''post_a'', pr_author_id = ''author_a'',
              budget_total = 100, duration_days = 7, target_wealth_levels = [fish],
              preferred_regions = [], exclude_followers = False, pr_status = ''active'',
              pr_created_at = 0, expires_at = 604800000, completed_at = None \<rparr>"

definition taskA :: refund_task_row where
  "taskA = \<lparr> rt_promotion_id = ''promo_a'', original_budget = 100, refund_date = 604800000,
             refund_amount = None, rt_status = ''scheduled'', rt_created_at = 0,
             processed_at = None \<rparr>"

definition scenarioA :: store where
  "scenarioA =
     \<lparr> promotions = [promoA],
       promotion_queue = [],
       promotion_expenses =
         [\<lparr> e_promotion_id = ''promo_a'', e_user_id = ''user_1'', action_type = ''view'',
            cost = 10, e_created_at = 86400000 \<rparr>,
          \<lparr> e_promotion_id = ''promo_a'', e_user_id = ''user_2'', action_type = ''like'',
            cost = 10, e_created_at = 172800000 \<rparr>,
          \<lparr> e_promotion_id = ''promo_a'', e_user_id = ''user_3'', action_type = ''follow'',
            cost = 20, e_created_at = 259200000 \<rparr>],
       refund_tasks = [taskA],
       points_ledger = [] \<rparr>"

text \<open>
  Scenario B: a budget of 100 with 99 spent by day 3; the exhaustion sweep of day 3, then
  the refund sweep of day 7.
\<close>

definition promoB :: promotion_row where
  "promoB = \<lparr> pr_id = ''promo_b'', pr_post_id = ''post_b'', pr_author_id = ''author_b'',
              budget_total = 100, duration_days = 7, target_wealth_levels = [whale],
              preferred_regions = [], exclude_followers = False, pr_status = ''active'',
              pr_created_at = 0, expires_at = 604800000, completed_at = None \<rparr>"

definition taskB :: refund_task_row where
  "taskB = \<lparr> rt_promotion_id = ''promo_b'', original_budget = 100, refund_date = 604800000,
             refund_amount = None, rt_status = ''scheduled'', rt_created_at = 0,
             processed_at = None \<rparr>"

definition scenarioB :: store where
  "scenarioB =
     \<lparr> promotions = [promoB],
       promotion_queue =
         [\<lparr> q_promotion_id = ''promo_b'', q_user_id = Some ''user_1'',
            scheduled_delivery = 345600000, q_status = ''scheduled'', q_created_at = 0,
            cancelled_at = None, cancellation_reason = None \<rparr>],
       promotion_expenses =
         [\<lparr> e_promotion_id = ''promo_b'', e_user_id = ''user_2'', action_type = ''view'',
            cost = 60, e_created_at = 86400000 \<rparr>,
          \<lparr> e_promotion_id = ''promo_b'', e_user_id = ''user_3'', action_type = ''follow'',
            cost = 39, e_created_at = 172800000 \<rparr>],
       refund_tasks = [taskB],
       points_ledger = [] \<rparr>"

definition stoppedB :: store where
  "stoppedB = checkBudgetExhaustion 259200000 scenarioB"

definition doneB :: store where
  "doneB = processScheduledRefunds 604800000 stoppedB"

text \<open>Two candidates that differ in their user id only, the store returning \<open>b\<close> first.\<close>

definition tie_content :: content_row where
  "tie_content = \<lparr> c_id = ''post_t'', c_author_id = ''author_t'', c_likes = 12, c_replies = 3,
                   c_shares = 1, c_text = utf16 ''startup'', c_images = None,
                   c_target_wealth_levels = Some [''whale''], c_location = None \<rparr>"

definition tie_candidate :: "string \<Rightarrow> candidate_row" where
  "tie_candidate uid = \<lparr> user_id = uid, country_code = Some ''CN'', c_region = None,
                         wealth_level = whale, followers_count = 500, recent_activity = 4,
                         avg_engagement = 20 \<rparr>"

text \<open>A target user of the lowest tier, without location.\<close>

definition foam_user :: TargetUser where
  "foam_user = \<lparr> userId = Some ''user_f'', wealthLevel = Some foam, relevanceScore = 85,
                 engagementProbability = 0.5, influenceMultiplier = 1, location = None \<rparr>"

text \<open>
  A request, and two readings of the environment that differ in the random draw only.
\<close>

definition demo_request :: PromotionRequest where
  "demo_request = \<lparr> rq_authorId = ''author_t'', rq_postId = ''post_t'', rq_total = 100,
                     rq_dailyLimit = None, rq_duration = 3, rq_wealthLevels = [whale],
                     rq_preferredRegions = None, rq_excludeFollowers = False \<rparr>"

definition env_a :: optimizer_env where
  "env_a = \<lparr> pricing_hours = 10, pricing_weekend = False, protect_now = 1000,
             schedule_start = 1000, schedule_now = 1000, id_now = 1000,
             id_random = ''0.abc'' \<rparr>"

definition env_b :: optimizer_env where
  "env_b = env_a\<lparr> id_random := ''0.xyz'' \<rparr>"

text \<open>A target user of the tier \<open>whale\<close>, as the interface \<open>TargetUser\<close> describes one.\<close>

definition whale_user :: TargetUser where
  "whale_user = \<lparr> userId = Some ''user_w'', wealthLevel = Some whale, relevanceScore = 90,
                  engagementProbability = 0.6, influenceMultiplier = 2, location = None \<rparr>"

section \<open>Auxiliary definitions for the proofs\<close>

text \<open>The amount \<open>processRefund\<close> computes for a row and the ledger rows it appends.\<close>

definition refund_of :: "refund_row \<Rightarrow> real" where
  "refund_of r = max 0 (r_original_budget r - r_total_spent r)"

definition credit_rows :: "int \<Rightarrow> refund_row \<Rightarrow> ledger_row list" where
  "credit_rows now r =
     (if refund_of r > 0
      then [\<lparr> l_user_id = r_author_id r, amount = refund_of r, l_type = ''earn'',
              reference_type = ''promotion_refund'', reference_id = r_promotion_id r,
              l_created_at = now \<rparr>]
      else [])"

text \<open>What a whole sweep does to one row of \<open>promotions\<close>.\<close>

definition complete_all :: "int \<Rightarrow> refund_row list \<Rightarrow> promotion_row \<Rightarrow> promotion_row" where
  "complete_all now rows p = fold (\<lambda>r. complete_promotion now (r_promotion_id r)) rows p"

definition stop_all :: "int \<Rightarrow> string list \<Rightarrow> promotion_row \<Rightarrow> promotion_row" where
  "stop_all now pids p = fold (stop_promotion now) pids p"

text \<open>
  Two scored candidates of equal rank: the same three scores and the same wealth tier, so
  the same composite value.
\<close>

definition same_rank :: "scored_candidate \<Rightarrow> scored_candidate \<Rightarrow> bool" where
  "same_rank u v \<longleftrightarrow>
     relevanceScore v = relevanceScore u \<and> engagementProbability v = engagementProbability u
     \<and> influenceMultiplier v = influenceMultiplier u \<and> wealthLevel v = wealthLevel u
     \<and> wealth_level (row v) = wealth_level (row u)"

text \<open>A plan with the three fields that come from the clock and the random draw blanked.\<close>

definition without_clock_and_random :: "PromotionPlan \<Rightarrow> PromotionPlan" where
  "without_clock_and_random p =
     p\<lparr> promotionId := [], schedule := (schedule p)\<lparr> startTime := 0, endTime := 0 \<rparr> \<rparr>"

section \<open>Theorems\<close>

subsection \<open>JavaScript numbers\<close>

lemma js_mul_NaN_right [simp]: "js_mul x NaN = NaN"
  by (cases x) simp_all

lemma js_add_NaN_right [simp]: "js_add x NaN = NaN"
  by (cases x) simp_all

lemma js_div_NaN_right [simp]: "js_div x NaN = NaN"
  by (cases x) simp_all

subsection \<open>Double precision\<close>

lemma round_even_err: "\<bar>of_int (round_even y) - y\<bar> \<le> 1 / 2"
  unfolding round_even_def Let_def
  by (auto simp: abs_le_iff)

lemma expo_up_bounds:
  "1 \<le> x \<Longrightarrow> x < 2 ^ n \<Longrightarrow>
     0 \<le> expo_up n x \<and> 2 powi (expo_up n x) \<le> x \<and> x < 2 powi (expo_up n x + 1)"
proof (induction n arbitrary: x)
  case 0
  then show ?case by simp
next
  case (Suc n)
  show ?case
  proof (cases "x < 2")
    case True
    with Suc.prems show ?thesis by simp
  next
    case False
    then have a: "1 \<le> x / 2" by simp
    have b: "x / 2 < 2 ^ n" using Suc.prems by simp
    from Suc.IH [OF a b] have
      e: "0 \<le> expo_up n (x / 2)" and l: "2 powi (expo_up n (x / 2)) \<le> x / 2"
      and h: "x / 2 < 2 powi (expo_up n (x / 2) + 1)" by auto
    have s: "2 powi (1 + k) = 2 * (2 powi k :: real)" for k :: int
      by (simp add: power_int_add)
    from l have "2 powi (1 + expo_up n (x / 2)) \<le> x" by (simp add: s)
    moreover from h have "x < 2 powi (1 + expo_up n (x / 2) + 1)"
      by (simp add: s power_int_add)
    ultimately show ?thesis using False e by simp
  qed
qed

lemma expo_down_bounds:
  "0 < x \<Longrightarrow> x < 2 \<Longrightarrow> 1 \<le> x * 2 ^ n \<Longrightarrow>
     2 powi (expo_down n x) \<le> x \<and> x < 2 powi (expo_down n x + 1)"
proof (induction n arbitrary: x)
  case 0
  then show ?case by simp
next
  case (Suc n)
  show ?case
  proof (cases "1 \<le> x")
    case True
    with Suc.prems show ?thesis by simp
  next
    case False
    have a: "0 < x * 2" "x * 2 < 2" "1 \<le> x * 2 * 2 ^ n"
      using Suc.prems False by (simp_all add: mult.assoc)
    from Suc.IH [OF a] have l: "2 powi (expo_down n (x * 2)) \<le> x * 2"
      and h: "x * 2 < 2 powi (expo_down n (x * 2) + 1)" by auto
    have s: "2 powi (k - 1) = (2 powi k :: real) / 2" for k :: int
      by (simp add: power_int_diff)
    from l have "2 powi (expo_down n (x * 2) - 1) \<le> x" by (simp add: s)
    moreover from h have "x < 2 powi (expo_down n (x * 2) - 1 + 1)"
      by (simp add: power_int_add)
    ultimately show ?thesis using False by simp
  qed
qed

lemma powi_unique:
  fixes x :: real
  assumes "2 powi e \<le> x" "x < 2 powi (e + 1)" "2 powi e' \<le> x" "x < 2 powi (e' + 1)"
  shows "e = e'"
proof (rule ccontr)
  assume "e \<noteq> e'"
  then consider "e + 1 \<le> e'" | "e' + 1 \<le> e" by linarith
  then show False
  proof cases
    case 1
    then have "(2::real) powi (e + 1) \<le> 2 powi e'" by (intro power_int_increasing) simp_all
    with assms show False by linarith
  next
    case 2
    then have "(2::real) powi (e' + 1) \<le> 2 powi e" by (intro power_int_increasing) simp_all
    with assms show False by linarith
  qed
qed

lemma exponent64_eq:
  assumes l: "2 powi e \<le> x" and h: "x < 2 powi (e + 1)" and lo: "- 1022 \<le> e" and hi: "e \<le> 1099"
  shows "exponent64 x = e"
proof -
  have pos: "0 < x" using l by (smt (verit) zero_less_power_int)
  show ?thesis
  proof (cases "1 \<le> x")
    case True
    have "x < 2 powi 1100"
    proof -
      have "(2::real) powi (e + 1) \<le> 2 powi 1100" using hi by (intro power_int_increasing) simp_all
      with h show ?thesis by linarith
    qed
    then have "x < 2 ^ 1100" by simp
    from expo_up_bounds [OF True this] have
      b: "0 \<le> expo_up 1100 x" "2 powi (expo_up 1100 x) \<le> x" "x < 2 powi (expo_up 1100 x + 1)"
      by auto
    from powi_unique [OF l h b(2,3)] have "expo_up 1100 x = e" by simp
    with True lo show ?thesis by (simp add: exponent64_def)
  next
    case False
    then have x2: "x < 2" by simp
    have "(2::real) powi (- 1022) \<le> 2 powi e" using lo by (intro power_int_increasing) simp_all
    with l have "2 powi (- 1022) \<le> x" by linarith
    then have "1 \<le> x * 2 ^ 1022"
      by (simp add: power_int_minus field_simps)
    moreover have "x * 2 ^ 1022 \<le> x * 2 ^ 1100" using pos by simp
    ultimately have "1 \<le> x * 2 ^ 1100" by linarith
    from expo_down_bounds [OF pos x2 this] have
      b: "2 powi (expo_down 1100 x) \<le> x" "x < 2 powi (expo_down 1100 x + 1)" by auto
    from powi_unique [OF l h b] have "expo_down 1100 x = e" by simp
    with False lo show ?thesis by (simp add: exponent64_def)
  qed
qed

lemma rd_eval:
  assumes "2 powi e \<le> \<bar>x\<bar>" "\<bar>x\<bar> < 2 powi (e + 1)" "- 1022 \<le> e" "e \<le> 1099"
  shows "rd x = of_int (round_even (x / 2 powi (e - 52))) * 2 powi (e - 52)"
proof -
  have "x \<noteq> 0" using assms(1) by (smt (verit) zero_less_power_int abs_zero)
  then show ?thesis by (simp add: rd_def Let_def exponent64_eq [OF assms])
qed

lemma rd_rel:
  assumes lo: "2 powi (- 1022) \<le> x" and hi: "x < 2 powi 1024"
  shows "x * (1 - 1 / 2 ^ 53) \<le> rd x \<and> rd x \<le> x * (1 + 1 / 2 ^ 53)"
proof -
  have pos: "0 < x" using lo by (smt (verit) zero_less_power_int)
  define e where "e = (if 1 \<le> x then expo_up 1100 x else expo_down 1100 x)"
  have b: "2 powi e \<le> x \<and> x < 2 powi (e + 1)"
  proof (cases "1 \<le> x")
    case True
    have "(2::real) powi 1024 \<le> 2 powi 1100" by (intro power_int_increasing) simp_all
    with hi have "x < 2 ^ 1100" by simp
    from expo_up_bounds [OF True this] True show ?thesis by (simp add: e_def)
  next
    case False
    then have x2: "x < 2" by simp
    from lo have "1 \<le> x * 2 ^ 1022"
      by (simp add: power_int_minus field_simps)
    moreover have "x * 2 ^ 1022 \<le> x * 2 ^ 1100" using pos by simp
    ultimately have "1 \<le> x * 2 ^ 1100" by linarith
    from expo_down_bounds [OF pos x2 this] False show ?thesis by (simp add: e_def)
  qed
  have ge: "- 1022 \<le> e"
  proof (rule ccontr)
    assume "\<not> - 1022 \<le> e"
    then have "e + 1 \<le> - 1022" by simp
    then have "(2::real) powi (e + 1) \<le> 2 powi (- 1022)" by (intro power_int_increasing) simp_all
    with b lo show False by linarith
  qed
  have ee: "exponent64 x = e" using ge by (simp add: exponent64_def e_def)
  define q :: real where "q = 2 powi (e - 52)"
  have qpos: "0 < q" by (simp add: q_def)
  have r: "rd x = of_int (round_even (x / q)) * q"
    using pos by (simp add: rd_def Let_def ee q_def)
  have "\<bar>of_int (round_even (x / q)) - x / q\<bar> \<le> 1 / 2" by (rule round_even_err)
  then have "\<bar>of_int (round_even (x / q)) - x / q\<bar> * q \<le> 1 / 2 * q"
    using qpos by (intro mult_right_mono) simp_all
  moreover have "rd x - x = (of_int (round_even (x / q)) - x / q) * q"
    using qpos by (simp add: r left_diff_distrib)
  then have "\<bar>rd x - x\<bar> = \<bar>of_int (round_even (x / q)) - x / q\<bar> * q"
    using qpos by (simp only: abs_mult abs_of_pos)
  ultimately have d: "\<bar>rd x - x\<bar> \<le> q / 2" by simp
  have "q = 2 powi e / 2 ^ 52" by (simp add: q_def power_int_diff)
  then have "q / 2 = 2 powi e / 2 ^ 53" by simp
  also have "\<dots> \<le> x / 2 ^ 53" using b by (simp add: divide_right_mono)
  finally have "q / 2 \<le> x / 2 ^ 53" .
  with d have "\<bar>rd x - x\<bar> \<le> x / 2 ^ 53" by linarith
  then have "rd x - x \<le> x / 2 ^ 53" "x - rd x \<le> x / 2 ^ 53" by linarith+
  then show ?thesis by (simp add: algebra_simps)
qed


text \<open>The doubles of the literals \<open>0.1\<close> and \<open>0.02\<close>, and a power of two, which is exact.\<close>

lemma rd_literals:
  "rd (1 / 10) = 3602879701896397 / 2 ^ 55"
  "rd (2 / 100) = 5764607523034235 / 2 ^ 58"
  "rd (1 / 2) = 1 / 2"
  by (simp_all add: rd_eval [where e = "-4"] rd_eval [where e = "-6"] rd_eval [where e = "-1"]
      round_even_def power_int_minus)

subsection \<open>Experience protection\<close>

lemma checkFrequencyLimits_empty:
  "fc_passed (checkFrequencyLimits db promotion []) = False"
  by (simp add: checkFrequencyLimits_def js_inf_def)

text \<open>
  C10. With an empty list of target users, every promotion whose content quality score is
  at least 40 is rejected with reason \<open>frequency_limit_exceeded\<close>: the violation rate is
  \<open>0 / 0\<close>, which is \<open>NaN\<close>, and \<open>NaN < 0.2\<close> is false. So the promotion is in the
  rejected list with that reason and nothing is approved.
\<close>

theorem empty_targets_frequency_rejected:
  assumes "40 \<le> checkContentQuality db now (postId promotion)"
  shows "checkPromotionSafety db now promotion ([] :: 'a TargetUser_scheme list) =
           \<lparr> approved = False, safetyScore = 0,
             rejectionReason = Some ''frequency_limit_exceeded'',
             deliveryConstraints = None \<rparr>
         \<and> protectUserExperience db now [promotion] ([] :: 'a TargetUser_scheme list) =
           \<lparr> approvedPromotions = [],
             rejectedPromotions = [(promotion, Some ''frequency_limit_exceeded'')],
             protectionReport = generateProtectionReport \<rparr>"
proof -
  have s: "checkPromotionSafety db now promotion ([] :: 'a TargetUser_scheme list) =
           \<lparr> approved = False, safetyScore = 0,
             rejectionReason = Some ''frequency_limit_exceeded'',
             deliveryConstraints = None \<rparr>"
    using assms by (simp add: checkPromotionSafety_def Let_def checkFrequencyLimits_empty)
  show ?thesis
    by (simp add: s protectUserExperience_def)
qed

lemma demo_quality: "checkContentQuality demo_db 3600000 (postId demo_promotion) = 53"
  by (simp add: checkContentQuality_def demo_db_def demo_promotion_def demo_post_def
      checkAuthorReputation_def Let_def)

theorem empty_targets_frequency_rejected_witness:
  "40 \<le> checkContentQuality demo_db 3600000 (postId demo_promotion)
   \<and> rejectedPromotions (protectUserExperience demo_db 3600000 [demo_promotion]
        ([] :: TargetUser list))
     = [(demo_promotion, Some ''frequency_limit_exceeded'')]"
proof -
  have h: "40 \<le> checkContentQuality demo_db 3600000 (postId demo_promotion)"
    by (simp add: demo_quality)
  show ?thesis
    using h empty_targets_frequency_rejected [OF h, where ?'a = unit] by simp
qed

subsection \<open>Refund sweep and budget-exhaustion sweep\<close>

lemma processRefund_promotions:
  "promotions (processRefund now r s) = map (complete_promotion now (r_promotion_id r)) (promotions s)"
  by (simp add: processRefund_def Let_def executeRefund_def)

lemma processRefund_tasks:
  "refund_tasks (processRefund now r s) =
     map (complete_task now (r_promotion_id r) (refund_of r)) (refund_tasks s)"
  by (simp add: processRefund_def Let_def executeRefund_def refund_of_def)

lemma processRefund_ledger:
  "points_ledger (processRefund now r s) = points_ledger s @ credit_rows now r"
  by (simp add: processRefund_def Let_def executeRefund_def refund_of_def credit_rows_def)

lemma processRefund_expenses:
  "promotion_expenses (processRefund now r s) = promotion_expenses s"
  by (simp add: processRefund_def Let_def executeRefund_def)

lemma processRefund_queue:
  "promotion_queue (processRefund now r s) = promotion_queue s"
  by (simp add: processRefund_def Let_def executeRefund_def)

lemma fold_processRefund_ledger:
  "points_ledger (fold (processRefund now) rows s) =
     points_ledger s @ concat (map (credit_rows now) rows)"
  by (induction rows arbitrary: s) (simp_all add: processRefund_ledger)

lemma fold_processRefund_ids:
  "map pr_id (promotions (fold (processRefund now) rows s)) = map pr_id (promotions s)"
  by (induction rows arbitrary: s)
     (simp_all add: processRefund_promotions complete_promotion_def o_def)

lemma find_promotion_None_iff:
  "find_promotion s pid = None \<longleftrightarrow> pid \<notin> set (map pr_id (promotions s))"
  by (auto simp: find_promotion_def find_None_iff)

lemma fold_processRefund_exists:
  "find_promotion (fold (processRefund now) rows s) pid = None \<longleftrightarrow> find_promotion s pid = None"
  by (simp only: find_promotion_None_iff fold_processRefund_ids)

lemma fold_processRefund_scheduled:
  "t \<in> set (refund_tasks (fold (processRefund now) rows s)) \<Longrightarrow> rt_status t = ''scheduled''
   \<Longrightarrow> t \<in> set (refund_tasks s) \<and> rt_promotion_id t \<notin> r_promotion_id ` set rows"
proof (induction rows arbitrary: s)
  case Nil
  then show ?case by simp
next
  case (Cons r rows)
  from Cons.prems have "t \<in> set (refund_tasks (fold (processRefund now) rows (processRefund now r s)))"
    by simp
  from Cons.IH [OF this Cons.prems(2)]
  have a: "t \<in> set (refund_tasks (processRefund now r s))"
    and b: "rt_promotion_id t \<notin> r_promotion_id ` set rows" by auto
  from a obtain t0 where t0: "t0 \<in> set (refund_tasks s)"
    "t = complete_task now (r_promotion_id r) (refund_of r) t0"
    by (auto simp: processRefund_tasks)
  with Cons.prems(2) have "rt_promotion_id t0 \<noteq> r_promotion_id r \<and> t = t0"
    by (auto simp: complete_task_def split: if_splits)
  with t0 b show ?case by auto
qed

lemma expired_pids:
  "r_promotion_id ` set (expiredPromotions now s) = rt_promotion_id ` set (due_tasks now s)"
  by (force simp: expiredPromotions_def refund_row_of_def task_key_def image_iff)

lemma due_after_sweep: "due_tasks now (processScheduledRefunds now s) = []"
proof -
  let ?s' = "processScheduledRefunds now s"
  have "\<not> (rt_status t = ''scheduled'' \<and> refund_date t \<le> now
         \<and> find_promotion ?s' (rt_promotion_id t) \<noteq> None)"
    if t: "t \<in> set (refund_tasks ?s')" for t
  proof
    assume c: "rt_status t = ''scheduled'' \<and> refund_date t \<le> now
         \<and> find_promotion ?s' (rt_promotion_id t) \<noteq> None"
    from t c have a: "t \<in> set (refund_tasks s)"
      and b: "rt_promotion_id t \<notin> r_promotion_id ` set (expiredPromotions now s)"
      using fold_processRefund_scheduled [of t now "expiredPromotions now s" s]
      by (auto simp: processScheduledRefunds_def)
    from c have "find_promotion s (rt_promotion_id t) \<noteq> None"
      by (simp add: processScheduledRefunds_def fold_processRefund_exists)
    with a c have "t \<in> set (due_tasks now s)" by (simp add: due_tasks_def)
    with b show False by (simp add: expired_pids)
  qed
  then show ?thesis by (simp add: due_tasks_def filter_empty_conv)
qed

lemma sweep_idem: "processScheduledRefunds now (processScheduledRefunds now s) = processScheduledRefunds now s"
proof -
  have "expiredPromotions now (processScheduledRefunds now s) = []"
    by (simp add: expiredPromotions_def due_after_sweep)
  then show ?thesis
    by (simp add: processScheduledRefunds_def [of now "processScheduledRefunds now s"])
qed


lemma credit_rows_filter:
  "filter (\<lambda>l. reference_id l = pid) (concat (map (credit_rows now) rows)) =
     concat (map (credit_rows now) (filter (\<lambda>r. r_promotion_id r = pid) rows))"
  by (induction rows) (auto simp: credit_rows_def)

lemma fold_processRefund_credits:
  "credits (fold (processRefund now) rows s) pid =
     credits s pid @ concat (map (credit_rows now) (filter (\<lambda>r. r_promotion_id r = pid) rows))"
  by (simp add: credits_def fold_processRefund_ledger credit_rows_filter)

lemma complete_task_pid [simp]: "rt_promotion_id (complete_task now rp amt t) = rt_promotion_id t"
  by (simp add: complete_task_def)

lemma processRefund_tasks_of:
  "tasks_of (processRefund now r s) pid =
     (if r_promotion_id r = pid then map (complete_task now pid (refund_of r)) (tasks_of s pid)
      else tasks_of s pid)"
proof -
  have a: "filter (\<lambda>t. rt_promotion_id t = pid) (map (complete_task now rp amt) ts)
        = map (complete_task now rp amt) (filter (\<lambda>t. rt_promotion_id t = pid) ts)" for rp amt ts
    by (induction ts) simp_all
  have b: "rp \<noteq> pid \<Longrightarrow> map (complete_task now rp amt) (filter (\<lambda>t. rt_promotion_id t = pid) ts)
        = filter (\<lambda>t. rt_promotion_id t = pid) ts" for rp amt ts
    by (induction ts) (simp_all add: complete_task_def)
  show ?thesis
    by (auto simp: tasks_of_def processRefund_tasks a b)
qed

lemma fold_processRefund_tasks_of:
  "tasks_of (fold (processRefund now) rows s) pid =
     fold (\<lambda>r. map (complete_task now pid (refund_of r)))
       (filter (\<lambda>r. r_promotion_id r = pid) rows) (tasks_of s pid)"
  by (induction rows arbitrary: s) (simp_all add: processRefund_tasks_of)

lemma due_tasks_of:
  "filter (\<lambda>t. rt_promotion_id t = pid) (due_tasks now s) =
     filter (\<lambda>t. rt_status t = ''scheduled'' \<and> refund_date t \<le> now
                 \<and> find_promotion s (rt_promotion_id t) \<noteq> None) (tasks_of s pid)"
  by (auto simp: due_tasks_def tasks_of_def intro: filter_cong)

lemma expired_of:
  "filter (\<lambda>r. r_promotion_id r = pid) (expiredPromotions now s) =
     map (refund_row_of now s)
       (remdups (map task_key (filter (\<lambda>t. rt_promotion_id t = pid) (due_tasks now s))))"
proof -
  have "filter (\<lambda>r. r_promotion_id r = pid) (map (refund_row_of now s) ks)
      = map (refund_row_of now s) (filter (\<lambda>k. fst k = pid) ks)" for ks
    by (induction ks) (simp_all add: refund_row_of_def)
  moreover have "filter (\<lambda>k. fst k = pid) (map task_key ts)
      = map task_key (filter (\<lambda>t. rt_promotion_id t = pid) ts)" for ts
    by (induction ts) (simp_all add: task_key_def)
  ultimately show ?thesis
    by (simp add: expiredPromotions_def remdups_filter [symmetric])
qed

lemma expired_of_none:
  assumes "\<forall>t \<in> set (tasks_of s pid). \<not> (rt_status t = ''scheduled'' \<and> refund_date t \<le> now)"
  shows "filter (\<lambda>r. r_promotion_id r = pid) (expiredPromotions now s) = []"
proof -
  have "filter (\<lambda>t. rt_promotion_id t = pid) (due_tasks now s) = []"
    using assms by (auto simp: due_tasks_of filter_empty_conv)
  then show ?thesis by (simp add: expired_of)
qed

lemma expired_of_single:
  assumes "tasks_of s pid = [t]" "rt_status t = ''scheduled''" "refund_date t \<le> now"
    "find_promotion s pid = Some p"
  shows "filter (\<lambda>r. r_promotion_id r = pid) (expiredPromotions now s) =
     [\<lparr> r_promotion_id = pid, r_original_budget = original_budget t,
        r_author_id = pr_author_id p, r_post_id = pr_post_id p,
        r_total_spent = total_spent s pid \<rparr>]"
proof -
  have pt: "rt_promotion_id t = pid"
  proof -
    have "t \<in> set (tasks_of s pid)" using assms(1) by simp
    then show ?thesis by (simp add: tasks_of_def)
  qed
  have d: "filter (\<lambda>t. rt_promotion_id t = pid) (due_tasks now s) = [t]"
    using assms pt by (simp add: due_tasks_of)
  have "filter (\<lambda>t'. task_key t' = task_key t) (due_tasks now s)
      = filter (\<lambda>t'. task_key t' = task_key t) (filter (\<lambda>t. rt_promotion_id t = pid) (due_tasks now s))"
    using pt by (auto simp: task_key_def intro: filter_cong)
  then have c: "filter (\<lambda>t'. task_key t' = task_key t) (due_tasks now s) = [t]"
    by (simp add: d)
  show ?thesis
    using assms(4) pt by (simp add: expired_of d refund_row_of_def c) (simp add: task_key_def)
qed

lemma sweep_no_scheduled:
  assumes "\<forall>t \<in> set (tasks_of s pid). rt_status t \<noteq> ''scheduled''"
  shows "credits (processScheduledRefunds now s) pid = credits s pid"
    and "tasks_of (processScheduledRefunds now s) pid = tasks_of s pid"
  using expired_of_none [of s pid now] assms
  by (simp_all add: processScheduledRefunds_def fold_processRefund_credits fold_processRefund_tasks_of)

lemma sweeps_no_scheduled:
  assumes "\<forall>t \<in> set (tasks_of s pid). rt_status t \<noteq> ''scheduled''"
  shows "credits (fold processScheduledRefunds nows s) pid = credits s pid
       \<and> tasks_of (fold processScheduledRefunds nows s) pid = tasks_of s pid"
  using assms
proof (induction nows arbitrary: s)
  case Nil
  then show ?case by simp
next
  case (Cons n nows)
  have "\<forall>t \<in> set (tasks_of (processScheduledRefunds n s) pid). rt_status t \<noteq> ''scheduled''"
    using Cons.prems by (simp add: sweep_no_scheduled(2))
  from Cons.IH [OF this] show ?case
    using Cons.prems by (simp add: sweep_no_scheduled)
qed


lemma find_map_id:
  assumes "\<And>p. pr_id (f p) = pr_id p"
  shows "find (\<lambda>p. pr_id p = pid) (map f ps) = map_option f (find (\<lambda>p. pr_id p = pid) ps)"
  by (induction ps) (simp_all add: assms)

lemma complete_all_Nil: "complete_all now [] = (\<lambda>p. p)"
  by (rule ext) (simp add: complete_all_def)

lemma complete_all_Cons:
  "complete_all now (r # rows) = complete_all now rows \<circ> complete_promotion now (r_promotion_id r)"
  by (rule ext) (simp add: complete_all_def)

lemma fold_processRefund_promotions:
  "promotions (fold (processRefund now) rows s) = map (complete_all now rows) (promotions s)"
  by (induction rows arbitrary: s)
     (simp_all add: complete_all_Nil complete_all_Cons processRefund_promotions)

lemma complete_all_id [simp]: "pr_id (complete_all now rows p) = pr_id p"
  by (induction rows arbitrary: p) (simp_all add: complete_all_def complete_promotion_def)

lemma complete_all_status:
  "pr_status (complete_all now rows p) = pr_status p
   \<or> pr_status (complete_all now rows p) = ''completed''"
proof (induction rows arbitrary: p)
  case Nil
  then show ?case by (simp add: complete_all_def)
next
  case (Cons r rows)
  from Cons [of "complete_promotion now (r_promotion_id r) p"] show ?case
    by (auto simp: complete_all_def complete_promotion_def split: if_splits)
qed

lemma stop_all_Nil: "stop_all now [] = (\<lambda>p. p)"
  by (rule ext) (simp add: stop_all_def)

lemma stop_all_Cons: "stop_all now (i # pids) = stop_all now pids \<circ> stop_promotion now i"
  by (rule ext) (simp add: stop_all_def)

lemma stop_all_id [simp]: "pr_id (stop_all now pids p) = pr_id p"
  by (induction pids arbitrary: p) (simp_all add: stop_all_def stop_promotion_def)

lemma stop_all_other: "pr_id p \<notin> set pids \<Longrightarrow> stop_all now pids p = p"
  by (induction pids arbitrary: p) (auto simp: stop_all_def stop_promotion_def)

lemma stop_all_status:
  "pr_status (stop_all now pids p) = pr_status p
   \<or> pr_status (stop_all now pids p) = ''stopped_early''"
proof (induction pids arbitrary: p)
  case Nil
  then show ?case by (simp add: stop_all_def)
next
  case (Cons i pids)
  from Cons [of "stop_promotion now i p"] show ?case
    by (auto simp: stop_all_def stop_promotion_def split: if_splits)
qed

lemma stopPromotionEarly_promotions:
  "promotions (fst (stopPromotionEarly now pid reason s)) = map (stop_promotion now pid) (promotions s)"
  by (simp add: stopPromotionEarly_def Let_def executeRefund_def
      split: option.splits)

lemma stopPromotionEarly_tasks:
  "refund_tasks (fst (stopPromotionEarly now pid reason s)) = refund_tasks s"
  by (simp add: stopPromotionEarly_def Let_def executeRefund_def
      split: option.splits)


lemma stop_each_promotions:
  "\<exists>pids'. set pids' \<subseteq> set pids \<and>
     promotions (stop_each now pids s) = map (stop_all now pids') (promotions s)"
proof (induction pids arbitrary: s)
  case Nil
  have "promotions (stop_each now [] s) = map (stop_all now []) (promotions s)"
    by (simp add: stop_all_Nil)
  then show ?case by blast
next
  case (Cons i pids)
  obtain s' threw where st: "stopPromotionEarly now i ''budget_exhausted'' s = (s', threw)"
    by (cases "stopPromotionEarly now i ''budget_exhausted'' s")
  then have p': "promotions s' = map (stop_promotion now i) (promotions s)"
    using stopPromotionEarly_promotions [of now i "''budget_exhausted''" s] by simp
  show ?case
  proof (cases threw)
    case True
    then have "promotions (stop_each now (i # pids) s) = map (stop_all now [i]) (promotions s)"
      using st p' by (simp add: stop_all_Nil stop_all_Cons)
    moreover have "set [i] \<subseteq> set (i # pids)" by simp
    ultimately show ?thesis by blast
  next
    case False
    from Cons [of s'] obtain pids' where q: "set pids' \<subseteq> set pids"
      "promotions (stop_each now pids s') = map (stop_all now pids') (promotions s')" by blast
    have "promotions (stop_each now (i # pids) s) = map (stop_all now (i # pids')) (promotions s)"
      using st False q(2) p' by (simp add: stop_all_Cons)
    moreover have "set (i # pids') \<subseteq> set (i # pids)" using q(1) by auto
    ultimately show ?thesis by blast
  qed
qed


lemma exhausted_active:
  "pid \<in> set (exhaustedPromotions now s) \<Longrightarrow>
     \<exists>p \<in> set (promotions s). pr_id p = pid \<and> pr_status p = ''active''"
  by (auto simp: exhaustedPromotions_def)

lemma distinct_find:
  "distinct (map pr_id ps) \<Longrightarrow> p \<in> set ps \<Longrightarrow> find (\<lambda>q. pr_id q = pr_id p) ps = Some p"
  by (induction ps) (auto simp: image_iff)

lemma refund_sweep_status:
  "status_of (processScheduledRefunds now s) pid =
     map_option (\<lambda>p. pr_status (complete_all now (expiredPromotions now s) p)) (find_promotion s pid)"
  by (simp add: status_of_def find_promotion_def processScheduledRefunds_def
      fold_processRefund_promotions find_map_id option.map_comp o_def)

lemma exhaustion_sweep_status:
  "\<exists>pids'. set pids' \<subseteq> set (exhaustedPromotions now s) \<and>
     status_of (checkBudgetExhaustion now s) pid =
       map_option (\<lambda>p. pr_status (stop_all now pids' p)) (find_promotion s pid)"
proof -
  from stop_each_promotions [of "exhaustedPromotions now s" now s]
  obtain pids' where q: "set pids' \<subseteq> set (exhaustedPromotions now s)"
    "promotions (stop_each now (exhaustedPromotions now s) s) = map (stop_all now pids') (promotions s)"
    by blast
  have "status_of (checkBudgetExhaustion now s) pid =
       map_option (\<lambda>p. pr_status (stop_all now pids' p)) (find_promotion s pid)"
    by (simp add: status_of_def find_promotion_def checkBudgetExhaustion_def q(2)
        find_map_id option.map_comp o_def)
  with q(1) show ?thesis by blast
qed

lemma run_sweep_status:
  "(status_of (run_sweep w s) pid = None \<longleftrightarrow> status_of s pid = None)
   \<and> (\<forall>x. status_of (run_sweep w s) pid = Some x \<longrightarrow>
         status_of s pid = Some x \<or> x = ''completed'' \<or> x = ''stopped_early'')"
proof (cases w)
  case (RefundSweep now)
  show ?thesis
  proof (cases "find_promotion s pid")
    case None
    then show ?thesis by (simp add: RefundSweep refund_sweep_status status_of_def [of s])
  next
    case (Some p)
    with complete_all_status [of now "expiredPromotions now s" p] show ?thesis
      by (auto simp: RefundSweep refund_sweep_status status_of_def [of s])
  qed
next
  case (ExhaustionSweep now)
  from exhaustion_sweep_status [of now s pid] obtain pids' where
    q: "status_of (checkBudgetExhaustion now s) pid =
       map_option (\<lambda>p. pr_status (stop_all now pids' p)) (find_promotion s pid)" by blast
  show ?thesis
  proof (cases "find_promotion s pid")
    case None
    then show ?thesis by (simp add: ExhaustionSweep q status_of_def [of s])
  next
    case (Some p)
    with stop_all_status [of now pids' p] show ?thesis
      by (auto simp: ExhaustionSweep q status_of_def [of s])
  qed
qed

lemma run_sweep_ids: "map pr_id (promotions (run_sweep w s)) = map pr_id (promotions s)"
proof (cases w)
  case (RefundSweep now)
  then show ?thesis by (simp add: processScheduledRefunds_def fold_processRefund_ids)
next
  case (ExhaustionSweep now)
  from stop_each_promotions [of "exhaustedPromotions now s" now s]
  obtain pids' where
    "promotions (stop_each now (exhaustedPromotions now s) s) = map (stop_all now pids') (promotions s)"
    by blast
  then show ?thesis by (simp add: ExhaustionSweep checkBudgetExhaustion_def o_def)
qed

lemma exhaustion_keeps_inactive:
  assumes d: "distinct (map pr_id (promotions s))" and n: "status_of s pid \<noteq> Some ''active''"
  shows "status_of (checkBudgetExhaustion now s) pid = status_of s pid"
proof -
  from exhaustion_sweep_status [of now s pid] obtain pids' where
    q: "set pids' \<subseteq> set (exhaustedPromotions now s)"
      "status_of (checkBudgetExhaustion now s) pid =
       map_option (\<lambda>p. pr_status (stop_all now pids' p)) (find_promotion s pid)" by blast
  have "pid \<notin> set (exhaustedPromotions now s)"
  proof
    assume "pid \<in> set (exhaustedPromotions now s)"
    from exhausted_active [OF this] obtain p where
      p: "p \<in> set (promotions s)" "pr_id p = pid" "pr_status p = ''active''" by blast
    from distinct_find [OF d p(1)] p(2,3) have "status_of s pid = Some ''active''"
      by (simp add: status_of_def find_promotion_def)
    with n show False by simp
  qed
  with q(1) have ni: "pid \<notin> set pids'" by blast
  show ?thesis
  proof (cases "find_promotion s pid")
    case None
    then show ?thesis by (simp add: q(2) status_of_def [of s])
  next
    case (Some p)
    then have "pr_id p = pid"
      by (auto simp: find_promotion_def find_Some_iff)
    with ni have "stop_all now pids' p = p" by (simp add: stop_all_other)
    with Some show ?thesis by (simp add: q(2) status_of_def [of s])
  qed
qed

lemma run_sweep_completed:
  assumes d: "distinct (map pr_id (promotions s))" and c: "status_of s pid = Some ''completed''"
  shows "status_of (run_sweep w s) pid = Some ''completed''"
proof (cases w)
  case (RefundSweep now)
  from c obtain p where p: "find_promotion s pid = Some p" "pr_status p = ''completed''"
    by (auto simp: status_of_def [of s])
  with complete_all_status [of now "expiredPromotions now s" p] show ?thesis
    by (auto simp: RefundSweep refund_sweep_status)
next
  case (ExhaustionSweep now)
  from c have "status_of s pid \<noteq> Some ''active''" by simp
  from exhaustion_keeps_inactive [OF d this] c show ?thesis
    by (simp add: ExhaustionSweep)
qed


lemma stoppedB_eq:
  "stoppedB = scenarioB
     \<lparr> promotion_queue :=
         [\<lparr> q_promotion_id = ''promo_b'', q_user_id = Some ''user_1'',
            scheduled_delivery = 345600000, q_status = ''cancelled'', q_created_at = 0,
            cancelled_at = Some 259200000, cancellation_reason = Some ''budget_exhausted'' \<rparr>],
       promotions := [promoB\<lparr> pr_status := ''stopped_early'', completed_at := Some 259200000 \<rparr>],
       points_ledger :=
         [\<lparr> l_user_id = ''author_b'', amount = 1, l_type = ''earn'',
            reference_type = ''promotion_refund'', reference_id = ''promo_b'',
            l_created_at = 259200000 \<rparr>] \<rparr>"
  by (simp add: stoppedB_def checkBudgetExhaustion_def exhaustedPromotions_def scenarioB_def
      promoB_def total_spent_def stopPromotionEarly_def Let_def cancel_queue_def
      stop_promotion_def checkRemainingBudget_def find_promotion_def executeRefund_def)

lemma doneB_eq:
  "doneB = stoppedB
     \<lparr> promotions := [promoB\<lparr> pr_status := ''completed'', completed_at := Some 604800000 \<rparr>],
       refund_tasks := [taskB\<lparr> rt_status := ''completed'', processed_at := Some 604800000,
                               refund_amount := Some 1 \<rparr>],
       points_ledger :=
         [\<lparr> l_user_id = ''author_b'', amount = 1, l_type = ''earn'',
            reference_type = ''promotion_refund'', reference_id = ''promo_b'',
            l_created_at = 259200000 \<rparr>,
          \<lparr> l_user_id = ''author_b'', amount = 1, l_type = ''earn'',
            reference_type = ''promotion_refund'', reference_id = ''promo_b'',
            l_created_at = 604800000 \<rparr>] \<rparr>"
  unfolding doneB_def
  by (simp add: stoppedB_eq processScheduledRefunds_def expiredPromotions_def due_tasks_def
      scenarioB_def taskB_def promoB_def find_promotion_def task_key_def refund_row_of_def
      total_spent_def processRefund_def Let_def executeRefund_def complete_promotion_def
      complete_task_def)

text \<open>
  C1, as stated, fails: the status of a promotion changes again after it has left
  \<open>active\<close>. In scenario B the exhaustion sweep of day 3 sets \<open>stopped_early\<close>; it
  leaves the refund task scheduled, and the refund sweep of day 7 overwrites the status
  with \<open>completed\<close>, its \<open>UPDATE\<close> not being conditional on the status.
\<close>

theorem status_changes_after_leaving_active:
  "status_of scenarioB ''promo_b'' = Some ''active''
   \<and> status_of (checkBudgetExhaustion 259200000 scenarioB) ''promo_b'' = Some ''stopped_early''
   \<and> status_of (processScheduledRefunds 604800000
         (checkBudgetExhaustion 259200000 scenarioB)) ''promo_b'' = Some ''completed''"
  using doneB_eq
  by (simp add: doneB_def stoppedB_def [symmetric])
     (simp add: stoppedB_eq status_of_def find_promotion_def scenarioB_def promoB_def)

text \<open>
  C1, amended. Under any sequence of refund sweeps and budget-exhaustion sweeps, a
  promotion whose status is not \<open>active\<close> never becomes \<open>active\<close> again, and (ids being
  the primary key) a \<open>completed\<close> promotion stays \<open>completed\<close>; the exhaustion sweep
  changes the status of no promotion that is not \<open>active\<close> when the sweep selects. The
  status is one column, so it holds one value at a time.
\<close>

theorem status_never_reactivated:
  "(status_of s pid \<noteq> Some ''active'' \<longrightarrow> status_of (run_sweeps ws s) pid \<noteq> Some ''active'')
   \<and> (distinct (map pr_id (promotions s)) \<and> status_of s pid = Some ''completed''
        \<longrightarrow> status_of (run_sweeps ws s) pid = Some ''completed'')
   \<and> (distinct (map pr_id (promotions s)) \<and> status_of s pid \<noteq> Some ''active''
        \<longrightarrow> status_of (checkBudgetExhaustion now s) pid = status_of s pid)"
proof -
  have a: "status_of s pid \<noteq> Some ''active'' \<Longrightarrow> status_of (run_sweeps ws s) pid \<noteq> Some ''active''"
  proof (induction ws arbitrary: s)
    case Nil
    then show ?case by (simp add: run_sweeps_def)
  next
    case (Cons w ws)
    have "status_of (run_sweep w s) pid \<noteq> Some ''active''"
      using run_sweep_status [of w s pid] Cons.prems by auto
    from Cons.IH [OF this] show ?case by (simp add: run_sweeps_def)
  qed
  have b: "distinct (map pr_id (promotions s)) \<Longrightarrow> status_of s pid = Some ''completed''
        \<Longrightarrow> status_of (run_sweeps ws s) pid = Some ''completed''"
  proof (induction ws arbitrary: s)
    case Nil
    then show ?case by (simp add: run_sweeps_def)
  next
    case (Cons w ws)
    have "distinct (map pr_id (promotions (run_sweep w s)))"
      using Cons.prems(1) by (simp only: run_sweep_ids)
    from Cons.IH [OF this run_sweep_completed [OF Cons.prems]] show ?case
      by (simp add: run_sweeps_def)
  qed
  from a b exhaustion_keeps_inactive show ?thesis by blast
qed

theorem status_never_reactivated_witness:
  "status_of doneB ''promo_b'' \<noteq> Some ''active''
   \<and> distinct (map pr_id (promotions doneB))
   \<and> status_of doneB ''promo_b'' = Some ''completed''
   \<and> status_of (run_sweeps [ExhaustionSweep 605000000, RefundSweep 606000000] doneB) ''promo_b''
        = Some ''completed''
   \<and> status_of (checkBudgetExhaustion 605000000 doneB) ''promo_b'' = Some ''completed''"
proof -
  have h: "status_of doneB ''promo_b'' = Some ''completed''"
    by (simp add: doneB_eq stoppedB_eq status_of_def find_promotion_def scenarioB_def promoB_def)
  have d: "distinct (map pr_id (promotions doneB))"
    by (simp add: doneB_eq stoppedB_eq scenarioB_def)
  from status_never_reactivated
         [of doneB "''promo_b''" "[ExhaustionSweep 605000000, RefundSweep 606000000]" 605000000]
       h d
  show ?thesis by simp
qed




text \<open>
  C3. The refund sweep is idempotent. For a promotion with exactly one refund task, which
  is scheduled and due, and with budget left, one sweep appends exactly one credit, of
  the original budget less the total spent, to the ledger of the promotion and marks the
  task completed with that amount; a second sweep at that instant changes nothing; and
  whatever sweeps follow, however many and at whatever times, append no further credit
  for the promotion and leave its task as it is.
\<close>

theorem refund_sweep_idempotent:
  assumes one: "tasks_of s pid = [t]"
    and sched: "rt_status t = ''scheduled''" and due: "refund_date t \<le> now"
    and prom: "find_promotion s pid = Some p"
    and pos: "original_budget t - total_spent s pid > 0"
  shows "credits (processScheduledRefunds now s) pid =
           credits s pid @
             [\<lparr> l_user_id = pr_author_id p, amount = original_budget t - total_spent s pid,
                l_type = ''earn'', reference_type = ''promotion_refund'', reference_id = pid,
                l_created_at = now \<rparr>]
       \<and> tasks_of (processScheduledRefunds now s) pid =
           [t\<lparr> rt_status := ''completed'', processed_at := Some now,
               refund_amount := Some (original_budget t - total_spent s pid) \<rparr>]
       \<and> processScheduledRefunds now (processScheduledRefunds now s) =
           processScheduledRefunds now s
       \<and> (\<forall>nows. credits (fold processScheduledRefunds nows (processScheduledRefunds now s)) pid
                   = credits (processScheduledRefunds now s) pid
               \<and> tasks_of (fold processScheduledRefunds nows (processScheduledRefunds now s)) pid
                   = tasks_of (processScheduledRefunds now s) pid)"
proof -
  let ?s' = "processScheduledRefunds now s"
  note row = expired_of_single [OF one sched due prom]
  have pt: "rt_promotion_id t = pid"
  proof -
    have "t \<in> set (tasks_of s pid)" using one by simp
    then show ?thesis by (simp add: tasks_of_def)
  qed
  have c: "credits ?s' pid = credits s pid @
             [\<lparr> l_user_id = pr_author_id p, amount = original_budget t - total_spent s pid,
                l_type = ''earn'', reference_type = ''promotion_refund'', reference_id = pid,
                l_created_at = now \<rparr>]"
    using pos by (simp add: processScheduledRefunds_def fold_processRefund_credits row
        credit_rows_def refund_of_def)
  have k: "tasks_of ?s' pid =
           [t\<lparr> rt_status := ''completed'', processed_at := Some now,
               refund_amount := Some (original_budget t - total_spent s pid) \<rparr>]"
    using pos pt by (simp add: processScheduledRefunds_def fold_processRefund_tasks_of row one
        complete_task_def refund_of_def)
  have "\<forall>t \<in> set (tasks_of ?s' pid). rt_status t \<noteq> ''scheduled''"
    by (simp add: k)
  from sweeps_no_scheduled [OF this] c k sweep_idem show ?thesis
    by blast
qed

theorem refund_sweep_idempotent_witness:
  "tasks_of scenarioA ''promo_a'' = [taskA] \<and> rt_status taskA = ''scheduled''
   \<and> refund_date taskA \<le> 604800000 \<and> find_promotion scenarioA ''promo_a'' = Some promoA
   \<and> original_budget taskA - total_spent scenarioA ''promo_a'' > 0
   \<and> map amount (credits (processScheduledRefunds 604800000 scenarioA) ''promo_a'') = [60]
   \<and> map rt_status (tasks_of (processScheduledRefunds 604800000 scenarioA) ''promo_a'')
        = [''completed'']
   \<and> processScheduledRefunds 604800000 (processScheduledRefunds 604800000 scenarioA)
        = processScheduledRefunds 604800000 scenarioA
   \<and> map amount (credits (fold processScheduledRefunds [608400000, 612000000]
        (processScheduledRefunds 604800000 scenarioA)) ''promo_a'') = [60]"
proof -
  have h1: "tasks_of scenarioA ''promo_a'' = [taskA]"
    by (simp add: tasks_of_def scenarioA_def taskA_def)
  have h2: "rt_status taskA = ''scheduled''" by (simp add: taskA_def)
  have h3: "refund_date taskA \<le> 604800000" by (simp add: taskA_def)
  have h4: "find_promotion scenarioA ''promo_a'' = Some promoA"
    by (simp add: find_promotion_def scenarioA_def promoA_def)
  have sp: "total_spent scenarioA ''promo_a'' = 40"
    by (simp add: total_spent_def scenarioA_def)
  have h5: "original_budget taskA - total_spent scenarioA ''promo_a'' > 0"
    by (simp add: sp taskA_def)
  have c0: "credits scenarioA ''promo_a'' = []"
    by (simp add: credits_def scenarioA_def)
  have b: "original_budget taskA = 100" by (simp add: taskA_def)
  note t = refund_sweep_idempotent [OF h1 h2 h3 h4 h5]
  let ?s' = "processScheduledRefunds 604800000 scenarioA"
  from t have c: "map amount (credits ?s' ''promo_a'') = [60]"
    by (simp add: c0 sp b)
  from t have k: "map rt_status (tasks_of ?s' ''promo_a'') = [''completed'']"
    by simp
  from t have i: "processScheduledRefunds 604800000 ?s' = ?s'"
    by blast
  from t have "credits (fold processScheduledRefunds [608400000, 612000000] ?s') ''promo_a''
      = credits ?s' ''promo_a''"
    by blast
  with c have n: "map amount
      (credits (fold processScheduledRefunds [608400000, 612000000] ?s') ''promo_a'') = [60]"
    by (simp only:)
  from h1 h2 h3 h4 h5 c k i n show ?thesis by blast
qed

subsection \<open>Targeting\<close>

lemma js_sub_self_not_pos: "\<not> js_gt (js_sub x x) (Fin 0)"
  by (cases x) (simp_all add: js_gt_def js_sub_def)

lemma js_insert_length: "length (js_insert cmp x ys) = Suc (length ys)"
  by (induction ys) simp_all

lemma js_insert_set: "set (js_insert cmp x ys) = insert x (set ys)"
  by (induction ys) auto

lemma js_sort_length: "length (js_sort cmp xs) = length xs"
  by (induction xs) (simp_all add: js_sort_def js_insert_length)

lemma js_sort_set: "set (js_sort cmp xs) = set xs"
  by (induction xs) (simp_all add: js_sort_def js_insert_set)

lemma js_insert_filter:
  assumes "\<And>x y. P x \<Longrightarrow> P y \<Longrightarrow> \<not> js_gt (cmp x y) (Fin 0)"
  shows "filter P (js_insert cmp x ys) = filter P (x # ys)"
  by (induction ys) (auto simp: assms)

lemma js_sort_filter:
  assumes "\<And>x y. P x \<Longrightarrow> P y \<Longrightarrow> \<not> js_gt (cmp x y) (Fin 0)"
  shows "filter P (js_sort cmp xs) = filter P xs"
proof (induction xs)
  case Nil
  then show ?case by (simp add: js_sort_def)
next
  case (Cons x xs)
  have "filter P (js_sort cmp (x # xs)) = filter P (x # js_sort cmp xs)"
    using js_insert_filter [of P cmp x "js_sort cmp xs"] assms
    by (simp add: js_sort_def)
  with Cons show ?case by simp
qed

lemma same_rank_value: "same_rank u v \<Longrightarrow> calculateUserValue v = calculateUserValue u"
  by (simp add: same_rank_def calculateUserValue_def)

lemma filter_take_prefix: "prefix (filter P (take n xs)) (filter P xs)"
proof -
  have "filter P xs = filter P (take n xs) @ filter P (drop n xs)"
    by (metis append_take_drop_id filter_append)
  then show ?thesis by (simp add: prefix_def)
qed


text \<open>
  C7, as stated, fails: there is no tie-break by user id. Two candidates with the same
  scores and the same wealth tier, hence the same composite value, are returned in the
  order in which the store returned them, here \<open>b\<close> before \<open>a\<close>.
\<close>

theorem ties_keep_store_order:
  "relevanceScore (score_candidate tie_content (tie_candidate ''b''))
     * engagementProbability (score_candidate tie_content (tie_candidate ''b''))
     * influenceMultiplier (score_candidate tie_content (tie_candidate ''b''))
     * valueMap (wealth_level (tie_candidate ''b''))
   = relevanceScore (score_candidate tie_content (tie_candidate ''a''))
     * engagementProbability (score_candidate tie_content (tie_candidate ''a''))
     * influenceMultiplier (score_candidate tie_content (tie_candidate ''a''))
     * valueMap (wealth_level (tie_candidate ''a''))
   \<and> map_option (map (\<lambda>u. user_id (row u)))
         (findTargetsWithinFramework (Some tie_content)
            [tie_candidate ''b'', tie_candidate ''a'']) = Some [''b'', ''a'']"
  by (simp add: findTargetsWithinFramework_def js_sort_def score_candidate_def
      calculateUserValue_def getWealthLevelValue_def js_sub_def js_gt_def tie_candidate_def
      calculateRelevanceScore_def calculateWealthMatch_def calculateGeoRelevance_def
      calculateActivityMatch_def predictEngagementProbability_def
      calculateInfluenceMultiplier_def tie_content_def assessContentQuality_targeting_def)

text \<open>
  C7, amended. For every content item and every answer of the candidate query,
  \<open>findTargetsWithinFramework\<close> returns a sequence of at most 1000 scored candidates of
  that answer, and the candidates of one rank (equal scores and wealth tier, so equal
  composite value) come in the order in which the store returned them, those beyond the
  cut at 1000 dropped: the sort is stable and breaks no tie by user id.
\<close>

theorem targets_bounded_and_stable:
  "\<exists>r. findTargetsWithinFramework (Some content) candidates = Some r
     \<and> length r \<le> 1000 \<and> length r \<le> length candidates
     \<and> set r \<subseteq> set (map (score_candidate content) candidates)
     \<and> prefix (filter (same_rank u) r)
          (filter (same_rank u) (map (score_candidate content) candidates))"
proof -
  let ?cmp = "\<lambda>a b :: scored_candidate. js_sub (calculateUserValue b) (calculateUserValue a)"
  let ?xs = "map (score_candidate content) candidates"
  have r: "findTargetsWithinFramework (Some content) candidates = Some (take 1000 (js_sort ?cmp ?xs))"
    by (simp add: findTargetsWithinFramework_def)
  have t: "\<not> js_gt (?cmp x y) (Fin 0)" if "same_rank u x" "same_rank u y" for x y
    using that by (simp add: same_rank_value js_sub_self_not_pos)
  have f: "filter (same_rank u) (js_sort ?cmp ?xs) = filter (same_rank u) ?xs"
    by (rule js_sort_filter) (rule t)
  have p: "prefix (filter (same_rank u) (take 1000 (js_sort ?cmp ?xs))) (filter (same_rank u) ?xs)"
    using filter_take_prefix [of "same_rank u" 1000 "js_sort ?cmp ?xs"] by (simp only: f)
  have s: "set (take 1000 (js_sort ?cmp ?xs)) \<subseteq> set ?xs"
    using set_take_subset [of 1000 "js_sort ?cmp ?xs"] by (simp only: js_sort_set)
  have l: "length (take 1000 (js_sort ?cmp ?xs)) \<le> length candidates"
    by (simp add: js_sort_length)
  have "length (take 1000 (js_sort ?cmp ?xs)) \<le> 1000" by simp
  with r p s l show ?thesis by blast
qed

subsection \<open>Pricing\<close>

lemma level_roi_giant_whale: "level_roi giant_whale = 1 / 2"
  by (simp add: level_roi_def rd_eval [where e = "-2"] rd_eval [where e = "-1"] rd_eval [where e = "4"]
      round_even_def power_int_minus)

lemma level_roi_whale: "level_roi whale = 4803839602528529 / 2 ^ 53"
  by (simp add: level_roi_def rd_eval [where e = "-3"] rd_eval [where e = "-1"] rd_eval [where e = "4"]
      round_even_def power_int_minus)

lemma level_roi_shark: "level_roi shark = 8106479329266893 / 2 ^ 54"
  by (simp add: level_roi_def rd_eval [where e = "-3"] rd_eval [where e = "-2"] rd_eval [where e = "3"]
      round_even_def power_int_minus)

lemma level_roi_dolphin: "level_roi dolphin = 7205759403792793 / 2 ^ 54"
  by (simp add: level_roi_def rd_eval [where e = "-4"] rd_eval [where e = "-2"] rd_eval [where e = "2"]
      round_even_def power_int_minus)

lemma level_roi_turtle: "level_roi turtle = 3602879701896397 / 2 ^ 54"
  by (simp add: level_roi_def rd_eval [where e = "-4"] rd_eval [where e = "-3"] rd_eval [where e = "0"]
      round_even_def power_int_minus)

lemma level_roi_fish: "level_roi fish = 5188146770730811 / 2 ^ 55"
  by (simp add: level_roi_def rd_eval [where e = "-5"] rd_eval [where e = "-3"] rd_eval [where e = "-1"]
      round_even_def power_int_minus)

lemma level_roi_crab: "level_roi crab = 7686143364045647 / 2 ^ 56"
  by (simp add: level_roi_def rd_eval [where e = "-5"] rd_eval [where e = "-4"] rd_eval [where e = "-2"]
      round_even_def power_int_minus)

lemma level_roi_plankton: "level_roi plankton = 5404319552844595 / 2 ^ 56"
  by (simp add: level_roi_def rd_eval [where e = "-6"] rd_eval [where e = "-4"] rd_eval [where e = "-3"]
      round_even_def power_int_minus)

lemma level_roi_foam: "level_roi foam = 1080863910568919 / 2 ^ 54"
  by (simp add: level_roi_def rd_eval [where e = "-6"] rd_eval [where e = "-5"]
      round_even_def power_int_minus)

lemma level_roi_bounds: "1 / 32 \<le> level_roi l \<and> level_roi l \<le> 1"
  by (cases l)
    (simp_all add: level_roi_giant_whale level_roi_whale level_roi_shark level_roi_dolphin
      level_roi_turtle level_roi_fish level_roi_crab level_roi_plankton level_roi_foam)

lemma rd_rel_mid:
  assumes "1 / 2 ^ 20 \<le> x" "x \<le> 2 ^ 30"
  shows "x * (1 - 1 / 2 ^ 53) \<le> rd x \<and> rd x \<le> x * (1 + 1 / 2 ^ 53)"
proof (rule rd_rel)
  have "(2::real) powi (- 1022) \<le> 1 / 2 ^ 20" by (simp add: power_int_minus)
  with assms(1) show "2 powi (- 1022) \<le> x" by linarith
  have "(2::real) ^ 30 < 2 powi 1024" by simp
  with assms(2) show "x < 2 powi 1024" by linarith
qed

lemma pow_hi_bounds:
  assumes "k \<le> 9"
  shows "1 \<le> (1 + 1 / 2 ^ 53 :: real) ^ k" "(1 + 1 / 2 ^ 53 :: real) ^ k \<le> 2"
proof -
  show "1 \<le> (1 + 1 / 2 ^ 53 :: real) ^ k" by (rule one_le_power) simp
  have "(1 + 1 / 2 ^ 53 :: real) ^ k \<le> (1 + 1 / 2 ^ 53) ^ 9"
    by (rule power_increasing [OF assms]) simp
  also have "\<dots> \<le> 2" by (simp add: power_divide)
  finally show "(1 + 1 / 2 ^ 53 :: real) ^ k \<le> 2" .
qed

lemma pow_lo_bounds:
  assumes "k \<le> 9"
  shows "(1 - 1 / 2 ^ 53 :: real) ^ k \<le> 1" "1 / 2 \<le> (1 - 1 / 2 ^ 53 :: real) ^ k"
proof -
  show "(1 - 1 / 2 ^ 53 :: real) ^ k \<le> 1" by (rule power_le_one) simp_all
  have "1 / 2 \<le> (1 - 1 / 2 ^ 53 :: real) ^ 9" by (simp add: power_divide)
  also have "\<dots> \<le> (1 - 1 / 2 ^ 53) ^ k"
    by (rule power_decreasing [OF assms]) simp_all
  finally show "1 / 2 \<le> (1 - 1 / 2 ^ 53 :: real) ^ k" .
qed

lemma sum64_fold_bounds:
  "\<forall>r \<in> set rs. 1 / 32 \<le> r \<and> r \<le> 1 \<Longrightarrow> 0 \<le> s \<Longrightarrow>
   s * (1 - 1 / 2 ^ 53) ^ k \<le> t \<Longrightarrow> t \<le> s * (1 + 1 / 2 ^ 53) ^ k \<Longrightarrow>
   k + length rs \<le> 9 \<Longrightarrow> s + real (length rs) \<le> 9 \<Longrightarrow>
   (s + sum_list rs) * (1 - 1 / 2 ^ 53) ^ (k + length rs) \<le> foldl (\<lambda>sum x. rd (sum + x)) t rs
   \<and> foldl (\<lambda>sum x. rd (sum + x)) t rs \<le> (s + sum_list rs) * (1 + 1 / 2 ^ 53) ^ (k + length rs)"
proof (induction rs arbitrary: s t k)
  case Nil
  then show ?case by simp
next
  case (Cons r rs)
  define lo :: real where "lo = 1 - 1 / 2 ^ 53"
  define hi :: real where "hi = 1 + 1 / 2 ^ 53"
  have lo: "0 \<le> lo" "lo \<le> 1" and hi: "1 \<le> hi" by (simp_all add: lo_def hi_def)
  have r: "1 / 32 \<le> r" "r \<le> 1" using Cons.prems(1) by simp_all
  have k: "k \<le> 9" using Cons.prems(5) by simp
  have s9: "s \<le> 9" using Cons.prems(6) by simp
  note hk = pow_hi_bounds [OF k, folded hi_def]
  note lk = pow_lo_bounds [OF k, folded lo_def]
  have tl: "s * lo ^ k \<le> t" and tu: "t \<le> s * hi ^ k"
    using Cons.prems(3,4) by (simp_all add: lo_def hi_def)
  have "0 \<le> s * lo ^ k" using Cons.prems(2) lk by simp
  with tl have t0: "0 \<le> t" by linarith
  have "s * hi ^ k \<le> 9 * 2"
    by (rule mult_mono) (use s9 hk Cons.prems(2) in simp_all)
  with tu have t18: "t \<le> 18" by linarith
  have "1 / 2 ^ 20 \<le> t + r" using t0 r by simp
  moreover have "t + r \<le> 2 ^ 30" using t18 r by simp
  ultimately have rel: "(t + r) * lo \<le> rd (t + r)" "rd (t + r) \<le> (t + r) * hi"
    using rd_rel_mid [of "t + r"] by (simp_all add: lo_def hi_def)
  have "r * lo ^ k \<le> r * 1" by (rule mult_left_mono) (use lk r in simp_all)
  with tl have "s * lo ^ k + r * lo ^ k \<le> t + r" by simp
  then have "(s * lo ^ k + r * lo ^ k) * lo \<le> (t + r) * lo"
    by (rule mult_right_mono) (rule lo)
  with rel(1) have low: "(s + r) * lo ^ Suc k \<le> rd (t + r)"
    by (simp add: algebra_simps)
  have "r * 1 \<le> r * hi ^ k" by (rule mult_left_mono) (use hk r in simp_all)
  with tu have "t + r \<le> s * hi ^ k + r * hi ^ k" by simp
  then have "(t + r) * hi \<le> (s * hi ^ k + r * hi ^ k) * hi"
    by (rule mult_right_mono) (use hi in simp)
  with rel(2) have up: "rd (t + r) \<le> (s + r) * hi ^ Suc k"
    by (simp add: algebra_simps)
  have p1: "\<forall>r \<in> set rs. 1 / 32 \<le> r \<and> r \<le> 1" using Cons.prems(1) by simp
  have p2: "0 \<le> s + r" using Cons.prems(2) r by simp
  have p5: "Suc k + length rs \<le> 9" using Cons.prems(5) by simp
  have p6: "s + r + real (length rs) \<le> 9" using Cons.prems(6) r by simp
  from Cons.IH [OF p1 p2 low [unfolded lo_def] up [unfolded hi_def] p5 p6]
  show ?case by (simp add: add.assoc)
qed

lemma sum64_bounds:
  assumes "\<forall>r \<in> set rs. 1 / 32 \<le> r \<and> r \<le> 1" "length rs \<le> 9"
  shows "sum_list rs * (1 - 1 / 2 ^ 53) ^ length rs \<le> sum64 rs"
    and "sum64 rs \<le> sum_list rs * (1 + 1 / 2 ^ 53) ^ length rs"
  using sum64_fold_bounds [OF assms(1), of 0 0 0] assms(2)
  by (simp_all add: sum64_def)

lemma WealthLevel_UNIV:
  "UNIV = {foam, plankton, crab, fish, turtle, dolphin, shark, whale, giant_whale}"
proof -
  have "l \<in> {foam, plankton, crab, fish, turtle, dolphin, shark, whale, giant_whale}" for l
    by (cases l) simp_all
  then show ?thesis by blast
qed

lemma distinct_levels_length:
  assumes "distinct (ls :: WealthLevel list)"
  shows "length ls \<le> 9"
proof -
  have fin: "finite (UNIV :: WealthLevel set)" by (simp add: WealthLevel_UNIV)
  have "card (set ls) \<le> card (UNIV :: WealthLevel set)"
    by (rule card_mono [OF fin subset_UNIV])
  also have "\<dots> = 9" by (simp add: WealthLevel_UNIV)
  finally show ?thesis using distinct_card [OF assms] by simp
qed

lemma update_fresh: "k \<notin> fst ` set ps \<Longrightarrow> AList.update k v ps = ps @ [(k, v)]"
  by (induction ps) auto

lemma fold_update_distinct:
  "distinct (map fst qs) \<Longrightarrow> fst ` set qs \<inter> fst ` set acc = {} \<Longrightarrow>
     fold (\<lambda>(k, v). AList.update k v) qs acc = acc @ qs"
proof (induction qs arbitrary: acc)
  case Nil
  then show ?case by simp
next
  case (Cons q qs)
  obtain k v where q: "q = (k, v)" by (cases q)
  from Cons.prems have fresh: "k \<notin> fst ` set acc" by (auto simp: q)
  have d: "distinct (map fst qs)" using Cons.prems by simp
  have i: "fst ` set qs \<inter> fst ` set (acc @ [(k, v)]) = {}"
    using Cons.prems by (auto simp: q)
  show ?case
    using Cons.IH [OF d i] by (simp add: q update_fresh [OF fresh])
qed

lemma allocation_distinct:
  assumes "distinct ls"
  shows "recommendedAllocation (calculateBudgetOptimization b ls ea) =
           map (\<lambda>l. (l, rd (rd (level_roi l / sum64 (map level_roi ls)) * b))) ls"
proof -
  let ?qs = "map (\<lambda>l. (l, rd (rd (level_roi l / sum64 (map level_roi ls)) * b))) ls"
  have "fold (\<lambda>(k, v). AList.update k v) ?qs [] = [] @ ?qs"
    by (rule fold_update_distinct) (simp_all add: assms o_def)
  then show ?thesis
    by (simp add: calculateBudgetOptimization_def Let_def o_def case_prod_unfold)
qed

lemma sum_roi_bounds:
  "ls \<noteq> [] \<Longrightarrow> 1 / 32 \<le> sum_list (map level_roi ls)
     \<and> sum_list (map level_roi ls) \<le> real (length ls)"
proof (induction ls)
  case Nil
  then show ?case by simp
next
  case (Cons l ls)
  show ?case
  proof (cases "ls = []")
    case True
    then show ?thesis using level_roi_bounds [of l] by simp
  next
    case False
    with Cons have "1 / 32 \<le> sum_list (map level_roi ls)"
      "sum_list (map level_roi ls) \<le> real (length ls)" by simp_all
    with level_roi_bounds [of l] show ?thesis by simp
  qed
qed

lemma share_bounds:
  assumes T: "1 / 64 \<le> T" "T \<le> 18" and b: "1 \<le> b" "b \<le> 10000"
    and r: "1 / 32 \<le> r" "r \<le> 1"
  shows "r * b / T * (1 - 1 / 2 ^ 53) ^ 2 \<le> rd (rd (r / T) * b)"
    and "rd (rd (r / T) * b) \<le> r * b / T * (1 + 1 / 2 ^ 53) ^ 2"
proof -
  define lo :: real where "lo = 1 - 1 / 2 ^ 53"
  define hi :: real where "hi = 1 + 1 / 2 ^ 53"
  have lo: "0 \<le> lo" "1 / 2 \<le> lo" and hi: "0 \<le> hi" "hi \<le> 2" by (simp_all add: lo_def hi_def)
  have Tpos: "0 < T" using T by simp
  have x1: "1 / 576 \<le> r / T"
  proof -
    have "1 / 576 * T \<le> 1 / 576 * 18" using T by simp
    also have "\<dots> \<le> r" using r by simp
    finally show ?thesis using Tpos by (simp add: pos_le_divide_eq)
  qed
  have x2: "r / T \<le> 64"
  proof -
    have "r \<le> 64 * (1 / 64)" using r by simp
    also have "\<dots> \<le> 64 * T" using T by simp
    finally show ?thesis using Tpos by (simp add: pos_divide_le_eq)
  qed
  have "1 / 2 ^ 20 \<le> r / T" using x1 by simp
  moreover have "r / T \<le> 2 ^ 30" using x2 by simp
  ultimately have q: "r / T * lo \<le> rd (r / T)" "rd (r / T) \<le> r / T * hi"
    using rd_rel_mid [of "r / T"] by (simp_all add: lo_def hi_def)
  have rT0: "0 \<le> r / T" using r Tpos by simp
  have "1 / 576 * (1 / 2) \<le> r / T * lo"
    by (rule mult_mono) (use x1 lo rT0 in simp_all)
  with q(1) have q1: "1 / 1152 \<le> rd (r / T)" by linarith
  have "r / T * hi \<le> 64 * 2"
    by (rule mult_mono) (use x2 hi rT0 in simp_all)
  with q(2) have q2: "rd (r / T) \<le> 128" by linarith
  have "1 / 1152 * 1 \<le> rd (r / T) * b"
    by (rule mult_mono) (use q1 b in simp_all)
  then have y1: "1 / 2 ^ 20 \<le> rd (r / T) * b" by simp
  have "rd (r / T) * b \<le> 128 * 10000"
    by (rule mult_mono) (use q1 q2 b in simp_all)
  then have y2: "rd (r / T) * b \<le> 2 ^ 30" by simp
  have a: "rd (r / T) * b * lo \<le> rd (rd (r / T) * b)"
    "rd (rd (r / T) * b) \<le> rd (r / T) * b * hi"
    using rd_rel_mid [OF y1 y2] by (simp_all add: lo_def hi_def)
  have b0: "0 \<le> b" using b by simp
  have "r / T * lo * b * lo \<le> rd (r / T) * b * lo"
    by (intro mult_right_mono q(1) b0 lo)
  with a(1) have "r / T * lo * b * lo \<le> rd (rd (r / T) * b)" by linarith
  then show "r * b / T * (1 - 1 / 2 ^ 53) ^ 2 \<le> rd (rd (r / T) * b)"
    by (simp add: lo_def power2_eq_square algebra_simps)
  have "rd (r / T) * b * hi \<le> r / T * hi * b * hi"
    by (intro mult_right_mono q(2) b0 hi)
  with a(2) have "rd (rd (r / T) * b) \<le> r / T * hi * b * hi" by linarith
  then show "rd (rd (r / T) * b) \<le> r * b / T * (1 + 1 / 2 ^ 53) ^ 2"
    by (simp add: hi_def power2_eq_square algebra_simps)
qed


lemma allocation_sum_bounds:
  assumes d: "distinct ls" and ne: "ls \<noteq> []" and b: "1 \<le> b" "b \<le> 10000"
  shows "b * (1 - 1 / 2 ^ 49)
           \<le> sum_list (map (\<lambda>l. rd (rd (level_roi l / sum64 (map level_roi ls)) * b)) ls)"
    and "sum_list (map (\<lambda>l. rd (rd (level_roi l / sum64 (map level_roi ls)) * b)) ls)
           \<le> b * (1 + 1 / 2 ^ 49)"
proof -
  define lo :: real where "lo = 1 - 1 / 2 ^ 53"
  define hi :: real where "hi = 1 + 1 / 2 ^ 53"
  define S where "S = sum_list (map level_roi ls)"
  define T where "T = sum64 (map level_roi ls)"
  define n where "n = length ls"
  have n9: "n \<le> 9" using distinct_levels_length [OF d] by (simp add: n_def)
  have S: "1 / 32 \<le> S" "S \<le> 9"
    using sum_roi_bounds [OF ne] n9 by (simp_all add: S_def n_def)
  have rs: "\<forall>r \<in> set (map level_roi ls). 1 / 32 \<le> r \<and> r \<le> 1"
    using level_roi_bounds by simp
  have Tb: "S * lo ^ n \<le> T" "T \<le> S * hi ^ n"
    using sum64_bounds [OF rs] n9 by (simp_all add: S_def T_def n_def lo_def hi_def)
  note hn = pow_hi_bounds [OF n9, folded hi_def]
  note ln = pow_lo_bounds [OF n9, folded lo_def]
  have "1 / 32 * (1 / 2) \<le> S * lo ^ n"
    by (rule mult_mono) (use S ln in simp_all)
  with Tb(1) have T1: "1 / 64 \<le> T" by simp
  have "S * hi ^ n \<le> 9 * 2"
    by (rule mult_mono) (use S hn in simp_all)
  with Tb(2) have T2: "T \<le> 18" by simp
  have Tpos: "0 < T" using T1 by simp
  have Spos: "0 < S" using S by simp
  have b0: "0 < b" using b by simp
  have each: "level_roi l * b / T * lo ^ 2 \<le> rd (rd (level_roi l / T) * b)
              \<and> rd (rd (level_roi l / T) * b) \<le> level_roi l * b / T * hi ^ 2" for l
    using share_bounds [OF T1 T2 b, of "level_roi l"] level_roi_bounds [of l]
    by (simp add: lo_def hi_def)
  have lin: "sum_list (map (\<lambda>l. level_roi l * b / T * c) ls) = S * b / T * c" for c
    unfolding S_def by (induction ls) (simp_all add: algebra_simps add_divide_distrib)
  have "S * b / T * lo ^ 2 = sum_list (map (\<lambda>l. level_roi l * b / T * lo ^ 2) ls)"
    by (simp only: lin)
  also have "\<dots> \<le> sum_list (map (\<lambda>l. rd (rd (level_roi l / T) * b)) ls)"
    by (rule sum_list_mono) (use each in simp)
  finally have low: "S * b / T * lo ^ 2 \<le> sum_list (map (\<lambda>l. rd (rd (level_roi l / T) * b)) ls)" .
  have "sum_list (map (\<lambda>l. rd (rd (level_roi l / T) * b)) ls)
          \<le> sum_list (map (\<lambda>l. level_roi l * b / T * hi ^ 2) ls)"
    by (rule sum_list_mono) (use each in simp)
  also have "\<dots> = S * b / T * hi ^ 2" by (simp only: lin)
  finally have up: "sum_list (map (\<lambda>l. rd (rd (level_roi l / T) * b)) ls) \<le> S * b / T * hi ^ 2" .
  have hi9: "hi ^ n \<le> hi ^ 9" by (rule power_increasing [OF n9]) (simp add: hi_def)
  have lo9: "lo ^ 9 \<le> lo ^ n" by (rule power_decreasing [OF n9]) (simp_all add: lo_def)
  have lo9pos: "0 < lo ^ 9" by (simp add: lo_def)
  have hi9pos: "0 < hi ^ 9" by (simp add: hi_def)
  have "T \<le> S * hi ^ 9"
  proof -
    have "S * hi ^ n \<le> S * hi ^ 9" by (rule mult_left_mono [OF hi9]) (use Spos in simp)
    with Tb(2) show ?thesis by linarith
  qed
  then have "1 / hi ^ 9 \<le> S / T"
    using Tpos hi9pos by (simp add: field_simps)
  then have "(b * lo ^ 2) * (1 / hi ^ 9) \<le> (b * lo ^ 2) * (S / T)"
    by (rule mult_left_mono) (use b0 in simp)
  then have c2: "b * (lo ^ 2 / hi ^ 9) \<le> S * b / T * lo ^ 2"
    by (simp add: algebra_simps)
  have "1 - 1 / 2 ^ 49 \<le> lo ^ 2 / hi ^ 9"
    by (simp add: lo_def hi_def power_divide)
  then have c1: "b * (1 - 1 / 2 ^ 49) \<le> b * (lo ^ 2 / hi ^ 9)"
    by (rule mult_left_mono) (use b0 in simp)
  from c1 c2 low [unfolded T_def] show "b * (1 - 1 / 2 ^ 49)
           \<le> sum_list (map (\<lambda>l. rd (rd (level_roi l / sum64 (map level_roi ls)) * b)) ls)"
    unfolding T_def by linarith
  have "S * lo ^ 9 \<le> T"
  proof -
    have "S * lo ^ 9 \<le> S * lo ^ n" by (rule mult_left_mono [OF lo9]) (use Spos in simp)
    with Tb(1) show ?thesis by linarith
  qed
  then have "S / T \<le> 1 / lo ^ 9"
    using Tpos lo9pos by (simp add: field_simps)
  then have "(b * hi ^ 2) * (S / T) \<le> (b * hi ^ 2) * (1 / lo ^ 9)"
    by (rule mult_left_mono) (use b0 in simp)
  then have d2: "S * b / T * hi ^ 2 \<le> b * (hi ^ 2 / lo ^ 9)"
    by (simp add: algebra_simps)
  have "hi ^ 2 / lo ^ 9 \<le> 1 + 1 / 2 ^ 49"
    by (simp add: lo_def hi_def power_divide)
  then have d1: "b * (hi ^ 2 / lo ^ 9) \<le> b * (1 + 1 / 2 ^ 49)"
    by (rule mult_left_mono) (use b0 in simp)
  from d1 d2 up [unfolded T_def]
  show "sum_list (map (\<lambda>l. rd (rd (level_roi l / sum64 (map level_roi ls)) * b)) ls)
           \<le> b * (1 + 1 / 2 ^ 49)"
    unfolding T_def by linarith
qed

text \<open>
  C4, as stated, fails: the shares are rounded products of rounded quotients, and nothing
  is done to them after the division. For a total of 1 and the levels \<open>[foam, plankton]\<close>
  the ROIs are the doubles 0.06 and 0.075, their sum is the double 0.135, and the two
  shares are the doubles 0.4444444444444444 and 0.5555555555555555, which add up to
  \<open>1 - 1 / 2 ^ 53\<close>: the double 0.9999999999999999, and not the total.
\<close>

theorem allocation_sum_drifts:
  "recommendedAllocation (calculateBudgetOptimization 1 [foam, plankton] ())
     = [(foam, 2001599834386887 / 2 ^ 52), (plankton, 5003999585967217 / 2 ^ 53)]
   \<and> sum_list (map snd (recommendedAllocation (calculateBudgetOptimization 1 [foam, plankton] ())))
       = 1 - 1 / 2 ^ 53
   \<and> sum64 (map snd (recommendedAllocation (calculateBudgetOptimization 1 [foam, plankton] ())))
       = 1 - 1 / 2 ^ 53"
proof -
  have T: "sum64 (map level_roi [foam, plankton]) = 607985949695017 / 2 ^ 52"
    by (simp add: sum64_def level_roi_foam level_roi_plankton rd_eval [where e = "-5"]
        rd_eval [where e = "-3"] round_even_def power_int_minus)
  have f: "rd (rd (level_roi foam / (607985949695017 / 2 ^ 52)) * 1) = 2001599834386887 / 2 ^ 52"
    by (simp add: level_roi_foam rd_eval [where e = "-2"] round_even_def power_int_minus)
  have p: "rd (rd (level_roi plankton / (607985949695017 / 2 ^ 52)) * 1)
             = 5003999585967217 / 2 ^ 53"
    by (simp add: level_roi_plankton rd_eval [where e = "-1"] round_even_def power_int_minus)
  have d: "distinct [foam, plankton]" by simp
  have a: "recommendedAllocation (calculateBudgetOptimization 1 [foam, plankton] ())
     = [(foam, 2001599834386887 / 2 ^ 52), (plankton, 5003999585967217 / 2 ^ 53)]"
    unfolding allocation_distinct [OF d] T using f p by simp
  have s: "sum64 [2001599834386887 / 2 ^ 52, 5003999585967217 / 2 ^ 53] = 1 - 1 / 2 ^ 53"
    by (simp add: sum64_def rd_eval [where e = "-2"] rd_eval [where e = "-1"] round_even_def
        power_int_minus)
  show ?thesis unfolding a using s by simp
qed

text \<open>
  C4, amended. For every total budget from 1 to 10000 and every non-empty list of distinct
  wealth levels, the allocation has one entry per level, in the order of the list: the
  double \<open>(ROI / totalROI) * total\<close>, the ROI of a level being
  \<open>conversionRate * averageValue / averageCost\<close> and \<open>totalROI\<close> the sum of the ROIs,
  all in double arithmetic. No renormalisation follows the division and no remainder is
  assigned, so the entries need not sum to the total; their exact sum is within
  \<open>total / 2 ^ 49\<close> of it.
\<close>

theorem allocation_sum_within_rounding:
  assumes "distinct ls" "ls \<noteq> []" "1 \<le> b" "b \<le> 10000"
  shows "recommendedAllocation (calculateBudgetOptimization b ls ea)
           = map (\<lambda>l. (l, rd (rd (level_roi l / sum64 (map level_roi ls)) * b))) ls
       \<and> \<bar>sum_list (map snd (recommendedAllocation (calculateBudgetOptimization b ls ea))) - b\<bar>
           \<le> b / 2 ^ 49"
proof -
  note bd = allocation_sum_bounds [OF assms]
  have e: "b * (1 - 1 / 2 ^ 49) = b - b / 2 ^ 49" "b * (1 + 1 / 2 ^ 49) = b + b / 2 ^ 49"
    by (simp_all add: algebra_simps)
  have "\<bar>sum_list (map (\<lambda>l. rd (rd (level_roi l / sum64 (map level_roi ls)) * b)) ls) - b\<bar>
          \<le> b / 2 ^ 49"
    using bd unfolding e by linarith
  then show ?thesis
    by (simp add: allocation_distinct [OF assms(1)] o_def)
qed

theorem allocation_sum_within_rounding_witness:
  "distinct [foam, whale] \<and> [foam, whale] \<noteq> [] \<and> (1::real) \<le> 100 \<and> (100::real) \<le> 10000
   \<and> \<bar>sum_list (map snd (recommendedAllocation
          (calculateBudgetOptimization 100 [foam, whale] ()))) - 100\<bar> \<le> 100 / 2 ^ 49"
proof -
  have h1: "distinct [foam, whale]" by simp
  have h2: "[foam, whale] \<noteq> []" by simp
  have h3: "(1::real) \<le> 100" by simp
  have h4: "(100::real) \<le> 10000" by simp
  from allocation_sum_within_rounding [OF h1 h2 h3 h4, of "()"] h1 h2 h3 h4
  show ?thesis by blast
qed

text \<open>
  C5: the code does not do what the claim says. The price is the product of base price,
  wealth multiplier and demand multiplier; no discount is applied and the product is not
  rounded up. For a view by a user of the tier \<open>foam\<close> without location, under a strategy
  for content quality 95 made at noon on a weekday for the region \<open>CN\<close>, the price at
  quality 95 is \<open>1 * 0.5 * 1 = 0.5\<close>, where the claim has
  \<open>ceil(1 * 0.5 * 1 * 0.7 * 0.8) = 1\<close>.
\<close>

theorem action_price_not_rounded_up:
  "calculateActionPrice view foam_user
     (calculateDynamicPricing [foam] 95 12 ''CN'' False) 95 = Fin (1 / 2)"
proof -
  have half: "fl (1 / 2) = Fin (1 / 2)"
    by (simp add: fl_def rd_eval [where e = "-1"] round_even_def power_int_minus)
  have d: "calculateDemandMultipliers 12 ''CN'' False ''default'' = None"
    by (simp add: calculateDemandMultipliers_def)
  show ?thesis
    by (simp add: calculateActionPrice_def Let_def calculateDynamicPricing_def foam_user_def
        demand_key_def d js_or_def js_mul64_def half)
qed
subsection \<open>Optimizer\<close>

lemma wealthValues_none: "wealthValues (prop_key w) = None"
proof (cases w)
  case None
  then show ?thesis by (simp add: wealthValues_def prop_key_def)
next
  case (Some l)
  then show ?thesis by (cases l) (simp_all add: wealthValues_def prop_key_def)
qed

lemma foldl_const_NaN:
  "foldl (\<lambda>sum (user :: 'a TargetUser_scheme). NaN) acc us = (if us = [] then acc else NaN)"
  by (induction us arbitrary: acc) simp_all

lemma audience_NaN: "calculateAudienceBusinessValue targetUsers = NaN"
  by (simp add: calculateAudienceBusinessValue_def Let_def wealthValues_none foldl_const_NaN
      js_inf_def)


text \<open>
  C8 fails on the code, by a stale table. The table of wealth values in
  \<open>calculateAudienceBusinessValue\<close> has the four keys \<open>Plankton\<close>, \<open>Turtle\<close>,
  \<open>Dolphin\<close> and \<open>Whale\<close>, so for each of the nine wealth levels, and for a user
  without one, the lookup is \<open>undefined\<close>. For every list of target users the audience
  value is \<open>NaN\<close>, and with it the expected business value and the predicted
  \<open>expectedROI\<close>, whatever the content and the budget.
\<close>

theorem audience_value_undefined:
  "(\<forall>w. wealthValues (prop_key (Some w)) = None)
   \<and> calculateAudienceBusinessValue targetUsers = NaN
   \<and> calculateExpectedBusinessValue content targetUsers = NaN
   \<and> expectedROI (predictPromotionOutcome content targetUsers budgetOptimization pricing) = NaN"
  by (simp add: wealthValues_none audience_NaN calculateExpectedBusinessValue_def
      predictPromotionOutcome_def Let_def)

lemma toString36_1000: "toString36 1000 = ''rs''"
  by (simp add: toString36.simps [of 1000] toString36.simps [of 27] digit36_def)

lemma id_a: "generatePromotionId env_a = ''promo_rs_abc''"
  by (simp add: generatePromotionId_def env_a_def toString36_1000)

lemma id_b: "generatePromotionId env_b = ''promo_rs_xyz''"
  by (simp add: generatePromotionId_def env_b_def env_a_def toString36_1000)

lemma optimizer_id:
  "map_sum id promotionId (optimizePromotionWithinFramework env db (Some c) cands req)
     = Inr (generatePromotionId env)"
  by (simp add: optimizePromotionWithinFramework_def findTargetsWithinFramework_def Let_def)


text \<open>
  C9, as stated, fails: the promotion id is made of the clock and of a random draw. Two
  runs on the same request and the same store answers, whose environments differ in the
  draw only, return plans with different ids.
\<close>

theorem plans_differ_in_promotionId:
  "map_sum id promotionId
     (optimizePromotionWithinFramework env_a demo_db (Some tie_content) [] demo_request)
     = Inr ''promo_rs_abc''
   \<and> map_sum id promotionId
     (optimizePromotionWithinFramework env_b demo_db (Some tie_content) [] demo_request)
     = Inr ''promo_rs_xyz''"
  by (simp add: optimizer_id id_a id_b)


text \<open>
  C9, amended. For the same request and the same answers of the store, two runs of the
  optimizer both fail, with the same error, or return plans that agree in every field but
  \<open>promotionId\<close>, which is made of the clock and a random draw, and the \<open>startTime\<close>
  and \<open>endTime\<close> of the schedule, which are readings of the clock.
\<close>

theorem plan_depends_on_clock_and_random_only_in_id_and_times:
  "map_sum id without_clock_and_random
     (optimizePromotionWithinFramework env1 db content candidates request)
   = map_sum id without_clock_and_random
     (optimizePromotionWithinFramework env2 db content candidates request)"
proof (cases content)
  case None
  then show ?thesis by (simp add: optimizePromotionWithinFramework_def)
next
  case (Some c)
  then show ?thesis
    by (simp add: optimizePromotionWithinFramework_def findTargetsWithinFramework_def Let_def
        without_clock_and_random_def createOptimalSchedule_def predictPromotionOutcome_def
        protectUserExperience_def calculateDynamicPricing_def)
qed

subsection \<open>Creation of a promotion\<close>

text \<open>
  C6: the code does not do what the claim says. \<open>startPromotionExecution\<close> begins with
  \<open>this.generatePromotionId()\<close>, a method the controller does not have, so the call
  throws before the promotion is recorded: for every request and every store,
  \<open>createPromotion\<close> leaves the store as it was, with no promotion and no refund task
  added, and returns no promotion id.
\<close>

theorem creation_throws_before_any_write:
  "createPromotion clk db content candidates requestData s = (s, None)
   \<and> refund_tasks (fst (createPromotion clk db content candidates requestData s))
       = refund_tasks s"
  by (simp add: createPromotion_def startPromotionExecution_def
      controller_generatePromotionId_def)

end
